theory Spec2Isabelle
  imports Main
begin

section \<open>Data model\<close>

text \<open>
  The command layer of \<^verbatim>\<open>commands/domains.go\<close> works on transport records, on Go
  \<^verbatim>\<open>error\<close> values and on three collaborators reached through the command
  configuration: the flag store (\<^verbatim>\<open>c.Doit\<close>), the domains service
  (\<^verbatim>\<open>c.Domains()\<close>) and the displayer (\<^verbatim>\<open>c.Display\<close>).  Record fields share one
  name space in HOL, so the fields of the request and response records carry a short
  prefix; Go's \<^verbatim>\<open>int\<close> is taken at 64 bits.
\<close>

text \<open>
  Go \<^verbatim>\<open>error\<close> values.  \<^verbatim>\<open>MissingArgsErr\<close> is what
  \<^verbatim>\<open>doctl.NewMissingArgsErr\<close> builds, \<^verbatim>\<open>ErrorString\<close> is
  \<^verbatim>\<open>errors.New(text)\<close>, \<^verbatim>\<open>Errorf\<close> is \<^verbatim>\<open>fmt.Errorf(format, operands)\<close> kept
  unformatted, and \<^verbatim>\<open>Opaque\<close> stands for any error a collaborator makes up.
\<close>

datatype error =
    MissingArgsErr string
  | ErrorString string
  | Errorf string "string list"
  | Opaque nat

text \<open>Section 7 of the specification sorts errors into three kinds.\<close>

datatype error_kind = MissingArguments | InvalidInput | TransportAPI

fun kind :: "error \<Rightarrow> error_kind" where
  "kind (MissingArgsErr cmd) = MissingArguments"
| "kind (ErrorString msg) = InvalidInput"
| "kind (Errorf fmt operands) = InvalidInput"
| "kind (Opaque n) = TransportAPI"

text \<open>
  Modelled from the spec: \<^verbatim>\<open>doctl.NewMissingArgsErr\<close> lives in package
  \<^verbatim>\<open>doctl\<close>, outside the sources at hand; it builds the "missing arguments" error
  for the command name space it is given.
\<close>

definition NewMissingArgsErr :: "string \<Rightarrow> error" where
  "NewMissingArgsErr ns = MissingArgsErr ns"

text \<open>
  Modelled from the spec: the flag names of package \<^verbatim>\<open>doctl\<close>, as section 6 of
  the specification spells them on the command line.
\<close>

definition ArgRecordID :: string where "ArgRecordID = ''record-id''"
definition ArgRecordType :: string where "ArgRecordType = ''record-type''"
definition ArgRecordName :: string where "ArgRecordName = ''record-name''"
definition ArgRecordData :: string where "ArgRecordData = ''record-data''"
definition ArgRecordPriority :: string where "ArgRecordPriority = ''record-priority''"
definition ArgRecordPort :: string where "ArgRecordPort = ''record-port''"
definition ArgRecordWeight :: string where "ArgRecordWeight = ''record-weight''"

record Domain =
  dom_Name :: string
  dom_IP :: string

record DomainRecord =
  rec_ID :: int
  rec_Type :: string
  rec_Name :: string
  rec_Data :: string
  rec_Priority :: int
  rec_Port :: int
  rec_Weight :: int

record Region =
  reg_Name :: string
  reg_Slug :: string

record DomainCreateRequest =
  dcr_Name :: string
  dcr_IPAddress :: string

record DomainRecordEditRequest =
  Type :: string
  Name :: string
  Data :: string
  Priority :: int
  Port :: int
  Weight :: int

text \<open>What a handler hands to the displayer: \<^verbatim>\<open>&domain{domains: ...}\<close> or
  \<^verbatim>\<open>&domainRecord{domainRecords: ...}\<close>.\<close>

datatype Displayable =
    domain "Domain list"
  | domainRecord "DomainRecord list"

text \<open>One invocation of the service interface, with its arguments.\<close>

datatype call =
    CallCreate DomainCreateRequest
  | CallList
  | CallGet string
  | CallDelete string
  | CallRecords string
  | CallCreateRecord string DomainRecordEditRequest
  | CallEditRecord string int DomainRecordEditRequest
  | CallDeleteRecord string int

text \<open>
  The service interface \<^verbatim>\<open>do.DomainsService\<close> as the handlers use it.  Each
  operation reads and updates the remote state \<open>'s\<close>.  A Go result
  \<^verbatim>\<open>(*T, error)\<close> is a pair of options, \<^verbatim>\<open>nil\<close> being \<open>None\<close>; a slice result is a
  list, \<^verbatim>\<open>nil\<close> being the empty list.
\<close>

record 's DomainsService =
  List :: "'s \<Rightarrow> (Domain list \<times> error option) \<times> 's"
  Get :: "string \<Rightarrow> 's \<Rightarrow> (Domain option \<times> error option) \<times> 's"
  Create :: "DomainCreateRequest \<Rightarrow> 's \<Rightarrow> (Domain option \<times> error option) \<times> 's"
  Delete :: "string \<Rightarrow> 's \<Rightarrow> error option \<times> 's"
  Records :: "string \<Rightarrow> 's \<Rightarrow> (DomainRecord list \<times> error option) \<times> 's"
  CreateRecord :: "string \<Rightarrow> DomainRecordEditRequest \<Rightarrow> 's \<Rightarrow> (DomainRecord option \<times> error option) \<times> 's"
  EditRecord :: "string \<Rightarrow> int \<Rightarrow> DomainRecordEditRequest \<Rightarrow> 's \<Rightarrow> (DomainRecord option \<times> error option) \<times> 's"
  DeleteRecord :: "string \<Rightarrow> int \<Rightarrow> 's \<Rightarrow> error option \<times> 's"

text \<open>The flag store \<^verbatim>\<open>doctl.Config\<close>: a read takes the name space and the flag.\<close>

record Config =
  GetString :: "string \<Rightarrow> string \<Rightarrow> string \<times> error option"
  GetInt :: "string \<Rightarrow> string \<Rightarrow> int \<times> error option"

text \<open>
  \<^verbatim>\<open>CmdConfig\<close>.  \<^verbatim>\<open>Display\<close> belongs to the command package but is not among
  the sources at hand, so it is a parameter here: it consumes the item, may change the
  output \<open>'o\<close> and reports an error or \<^verbatim>\<open>nil\<close>.
\<close>

record ('s, 'o) CmdConfig =
  NS :: string
  Args :: "string list"
  Doit :: Config
  Domains :: "'s DomainsService"
  Display :: "Displayable \<Rightarrow> 'o \<Rightarrow> error option \<times> 'o"

text \<open>
  Everything outside the handler: the remote state, the output, the log of service
  invocations (each with the error it returned) and the log of displayed items.
\<close>

record ('s, 'o) world =
  remote :: 's
  out :: 'o
  calls :: "(call \<times> error option) list"
  displayed :: "Displayable list"

text \<open>How a handler ends: it returns an \<^verbatim>\<open>error\<close> (or \<^verbatim>\<open>nil\<close>), or it panics on
  dereferencing a \<^verbatim>\<open>nil\<close> pointer.\<close>

datatype outcome = Return "error option" | NilPointerPanic

section \<open>\<^verbatim>\<open>strconv.Atoi\<close>\<close>

text \<open>
  The standard library's decimal parser at \<^verbatim>\<open>IntSize = 64\<close>: an optional sign, then at
  least one digit; a character that is no digit is a syntax error, a value outside the
  range of \<^verbatim>\<open>int\<close> a range error.
\<close>

datatype NumError = ErrSyntax | ErrRange

definition digit_of :: "char \<Rightarrow> int option" where
  "digit_of ch =
     (let n = (of_char ch :: int) in if 48 \<le> n \<and> n \<le> 57 then Some (n - 48) else None)"

definition maxUint64 :: int where
  "maxUint64 = 18446744073709551615"

text \<open>The digit loop of \<^verbatim>\<open>ParseUint\<close> at base 10; \<open>n\<close> is the \<^verbatim>\<open>uint64\<close>
  accumulator, and both overflow tests come before the accumulator is updated.\<close>

fun ParseUint_loop :: "int \<Rightarrow> string \<Rightarrow> NumError + int" where
  "ParseUint_loop n [] = Inr n"
| "ParseUint_loop n (ch # s) =
     (case digit_of ch of
        None \<Rightarrow> Inl ErrSyntax
      | Some d \<Rightarrow>
          if n \<ge> maxUint64 div 10 + 1 then Inl ErrRange
          else if n * 10 + d > maxUint64 then Inl ErrRange
          else ParseUint_loop (n * 10 + d) s)"

definition ParseUint :: "string \<Rightarrow> NumError + int" where
  "ParseUint s = (if s = [] then Inl ErrSyntax else ParseUint_loop 0 s)"

definition ParseInt :: "string \<Rightarrow> NumError + int" where
  "ParseInt s0 =
     (if s0 = [] then Inl ErrSyntax
      else
        let neg = (hd s0 = CHR ''-'');
            s = (if hd s0 = CHR ''+'' \<or> hd s0 = CHR ''-'' then tl s0 else s0)
        in case ParseUint s of
             Inl ErrSyntax \<Rightarrow> Inl ErrSyntax
           | Inl ErrRange \<Rightarrow> Inl ErrRange
           | Inr un \<Rightarrow>
               if \<not> neg \<and> un \<ge> 2 ^ 63 then Inl ErrRange
               else if neg \<and> un > 2 ^ 63 then Inl ErrRange
               else Inr (if neg then - un else un))"

definition Atoi :: "string \<Rightarrow> NumError + int" where
  "Atoi s = ParseInt s"

text \<open>Decimal syntax: an optional sign, then one digit or more.\<close>

definition decimal_syntax :: "string \<Rightarrow> bool" where
  "decimal_syntax s =
     (let ds = (if s \<noteq> [] \<and> (hd s = CHR ''+'' \<or> hd s = CHR ''-'') then tl s else s)
      in ds \<noteq> [] \<and> list_all (\<lambda>ch. digit_of ch \<noteq> None) ds)"

section \<open>Invoking the collaborators\<close>

text \<open>
  Each wrapper runs one operation of \<^verbatim>\<open>c.Domains()\<close> on the remote state and appends
  the invocation, with the error it returned, to the log.
\<close>

definition ds_Create ::
  "('s, 'o) CmdConfig \<Rightarrow> DomainCreateRequest \<Rightarrow> ('s, 'o) world \<Rightarrow>
     (Domain option \<times> error option) \<times> ('s, 'o) world" where
  "ds_Create c req w =
     (case Create (Domains c) req (remote w) of
        ((d, err), s') \<Rightarrow>
          ((d, err), w\<lparr>remote := s', calls := calls w @ [(CallCreate req, err)]\<rparr>))"

definition ds_List ::
  "('s, 'o) CmdConfig \<Rightarrow> ('s, 'o) world \<Rightarrow> (Domain list \<times> error option) \<times> ('s, 'o) world" where
  "ds_List c w =
     (case List (Domains c) (remote w) of
        ((ds, err), s') \<Rightarrow>
          ((ds, err), w\<lparr>remote := s', calls := calls w @ [(CallList, err)]\<rparr>))"

definition ds_Get ::
  "('s, 'o) CmdConfig \<Rightarrow> string \<Rightarrow> ('s, 'o) world \<Rightarrow>
     (Domain option \<times> error option) \<times> ('s, 'o) world" where
  "ds_Get c name w =
     (case Get (Domains c) name (remote w) of
        ((d, err), s') \<Rightarrow>
          ((d, err), w\<lparr>remote := s', calls := calls w @ [(CallGet name, err)]\<rparr>))"

definition ds_Delete ::
  "('s, 'o) CmdConfig \<Rightarrow> string \<Rightarrow> ('s, 'o) world \<Rightarrow> error option \<times> ('s, 'o) world" where
  "ds_Delete c name w =
     (case Delete (Domains c) name (remote w) of
        (err, s') \<Rightarrow>
          (err, w\<lparr>remote := s', calls := calls w @ [(CallDelete name, err)]\<rparr>))"

definition ds_Records ::
  "('s, 'o) CmdConfig \<Rightarrow> string \<Rightarrow> ('s, 'o) world \<Rightarrow>
     (DomainRecord list \<times> error option) \<times> ('s, 'o) world" where
  "ds_Records c name w =
     (case Records (Domains c) name (remote w) of
        ((rs, err), s') \<Rightarrow>
          ((rs, err), w\<lparr>remote := s', calls := calls w @ [(CallRecords name, err)]\<rparr>))"

definition ds_CreateRecord ::
  "('s, 'o) CmdConfig \<Rightarrow> string \<Rightarrow> DomainRecordEditRequest \<Rightarrow> ('s, 'o) world \<Rightarrow>
     (DomainRecord option \<times> error option) \<times> ('s, 'o) world" where
  "ds_CreateRecord c name req w =
     (case CreateRecord (Domains c) name req (remote w) of
        ((r, err), s') \<Rightarrow>
          ((r, err), w\<lparr>remote := s', calls := calls w @ [(CallCreateRecord name req, err)]\<rparr>))"

definition ds_EditRecord ::
  "('s, 'o) CmdConfig \<Rightarrow> string \<Rightarrow> int \<Rightarrow> DomainRecordEditRequest \<Rightarrow> ('s, 'o) world \<Rightarrow>
     (DomainRecord option \<times> error option) \<times> ('s, 'o) world" where
  "ds_EditRecord c name rid req w =
     (case EditRecord (Domains c) name rid req (remote w) of
        ((r, err), s') \<Rightarrow>
          ((r, err), w\<lparr>remote := s', calls := calls w @ [(CallEditRecord name rid req, err)]\<rparr>))"

definition ds_DeleteRecord ::
  "('s, 'o) CmdConfig \<Rightarrow> string \<Rightarrow> int \<Rightarrow> ('s, 'o) world \<Rightarrow> error option \<times> ('s, 'o) world" where
  "ds_DeleteRecord c name rid w =
     (case DeleteRecord (Domains c) name rid (remote w) of
        (err, s') \<Rightarrow>
          (err, w\<lparr>remote := s', calls := calls w @ [(CallDeleteRecord name rid, err)]\<rparr>))"

text \<open>\<^verbatim>\<open>return c.Display(item)\<close>: the item is logged, and the handler returns what
  the displayer returns.\<close>

definition c_Display ::
  "('s, 'o) CmdConfig \<Rightarrow> Displayable \<Rightarrow> ('s, 'o) world \<Rightarrow> outcome \<times> ('s, 'o) world" where
  "c_Display c item w =
     (case Display c item (out w) of
        (err, o') \<Rightarrow> (Return err, w\<lparr>out := o', displayed := displayed w @ [item]\<rparr>))"

section \<open>The command handlers\<close>

definition RunDomainCreate ::
  "('s, 'o) CmdConfig \<Rightarrow> ('s, 'o) world \<Rightarrow> outcome \<times> ('s, 'o) world" where
  "RunDomainCreate c w =
     (if length (Args c) \<noteq> 1 then (Return (Some (NewMissingArgsErr (NS c))), w)
      else
        let domainName = Args c ! 0 in
        case GetString (Doit c) (NS c) ''ip-address'' of
          (ipAddress, Some err) \<Rightarrow> (Return (Some err), w)
        | (ipAddress, None) \<Rightarrow>
            let req = \<lparr>dcr_Name = domainName, dcr_IPAddress = ipAddress\<rparr> in
            (case ds_Create c req w of
               ((d, Some err), w') \<Rightarrow> (Return (Some err), w')
             | ((None, None), w') \<Rightarrow> (NilPointerPanic, w')
             | ((Some d, None), w') \<Rightarrow> c_Display c (domain [d]) w'))"

definition RunDomainList ::
  "('s, 'o) CmdConfig \<Rightarrow> ('s, 'o) world \<Rightarrow> outcome \<times> ('s, 'o) world" where
  "RunDomainList c w =
     (case ds_List c w of
        ((domains, Some err), w') \<Rightarrow> (Return (Some err), w')
      | ((domains, None), w') \<Rightarrow> c_Display c (domain domains) w')"

definition RunDomainGet ::
  "('s, 'o) CmdConfig \<Rightarrow> ('s, 'o) world \<Rightarrow> outcome \<times> ('s, 'o) world" where
  "RunDomainGet c w =
     (if length (Args c) \<noteq> 1 then (Return (Some (NewMissingArgsErr (NS c))), w)
      else
        let ident = Args c ! 0 in
        if length ident < 1 then (Return (Some (ErrorString ''invalid domain name'')), w)
        else
          case ds_Get c ident w of
            ((d, Some err), w') \<Rightarrow> (Return (Some err), w')
          | ((None, None), w') \<Rightarrow> (NilPointerPanic, w')
          | ((Some d, None), w') \<Rightarrow> c_Display c (domain [d]) w')"

definition RunDomainDelete ::
  "('s, 'o) CmdConfig \<Rightarrow> ('s, 'o) world \<Rightarrow> outcome \<times> ('s, 'o) world" where
  "RunDomainDelete c w =
     (if length (Args c) \<noteq> 1 then (Return (Some (NewMissingArgsErr (NS c))), w)
      else
        let name = Args c ! 0 in
        if length name < 1 then (Return (Some (ErrorString ''invalid domain name'')), w)
        else
          case ds_Delete c name w of
            (err, w') \<Rightarrow> (Return err, w'))"

definition RunRecordList ::
  "('s, 'o) CmdConfig \<Rightarrow> ('s, 'o) world \<Rightarrow> outcome \<times> ('s, 'o) world" where
  "RunRecordList c w =
     (if length (Args c) \<noteq> 1 then (Return (Some (NewMissingArgsErr (NS c))), w)
      else
        let name = Args c ! 0 in
        if length name < 1 then (Return (Some (ErrorString ''domain name is missing'')), w)
        else
          case ds_Records c name w of
            ((list, Some err), w') \<Rightarrow> (Return (Some err), w')
          | ((list, None), w') \<Rightarrow> c_Display c (domainRecord list) w')"

definition RunRecordCreate ::
  "('s, 'o) CmdConfig \<Rightarrow> ('s, 'o) world \<Rightarrow> outcome \<times> ('s, 'o) world" where
  "RunRecordCreate c w =
     (if length (Args c) \<noteq> 1 then (Return (Some (NewMissingArgsErr (NS c))), w)
      else
        let name = Args c ! 0 in
        case GetString (Doit c) (NS c) ArgRecordType of
          (rType, Some err) \<Rightarrow> (Return (Some err), w)
        | (rType, None) \<Rightarrow>
        case GetString (Doit c) (NS c) ArgRecordName of
          (rName, Some err) \<Rightarrow> (Return (Some err), w)
        | (rName, None) \<Rightarrow>
        case GetString (Doit c) (NS c) ArgRecordData of
          (rData, Some err) \<Rightarrow> (Return (Some err), w)
        | (rData, None) \<Rightarrow>
        case GetInt (Doit c) (NS c) ArgRecordPriority of
          (rPriority, Some err) \<Rightarrow> (Return (Some err), w)
        | (rPriority, None) \<Rightarrow>
        case GetInt (Doit c) (NS c) ArgRecordPort of
          (rPort, Some err) \<Rightarrow> (Return (Some err), w)
        | (rPort, None) \<Rightarrow>
        case GetInt (Doit c) (NS c) ArgRecordWeight of
          (rWeight, Some err) \<Rightarrow> (Return (Some err), w)
        | (rWeight, None) \<Rightarrow>
            let drcr = \<lparr>Type = rType, Name = rName, Data = rData,
                        Priority = rPriority, Port = rPort, Weight = rWeight\<rparr> in
            if length (Type drcr) = 0
            then (Return (Some (ErrorString ''record request is missing type'')), w)
            else
              (case ds_CreateRecord c name drcr w of
                 ((r, Some err), w') \<Rightarrow> (Return (Some err), w')
               | ((None, None), w') \<Rightarrow> (NilPointerPanic, w')
               | ((Some r, None), w') \<Rightarrow> c_Display c (domainRecord [r]) w'))"

text \<open>The body of \<^verbatim>\<open>for _, i := range ids\<close> in \<^verbatim>\<open>RunRecordDelete\<close>.\<close>

fun RunRecordDelete_loop ::
  "('s, 'o) CmdConfig \<Rightarrow> string \<Rightarrow> string list \<Rightarrow> ('s, 'o) world \<Rightarrow>
     outcome \<times> ('s, 'o) world" where
  "RunRecordDelete_loop c domainName [] w = (Return None, w)"
| "RunRecordDelete_loop c domainName (i # ids) w =
     (case Atoi i of
        Inl err \<Rightarrow> (Return (Some (Errorf ''invalid record id %q'' [i])), w)
      | Inr ident \<Rightarrow>
          (case ds_DeleteRecord c domainName ident w of
             (Some err, w') \<Rightarrow> (Return (Some err), w')
           | (None, w') \<Rightarrow> RunRecordDelete_loop c domainName ids w'))"

definition RunRecordDelete ::
  "('s, 'o) CmdConfig \<Rightarrow> ('s, 'o) world \<Rightarrow> outcome \<times> ('s, 'o) world" where
  "RunRecordDelete c w =
     (if length (Args c) < 2 then (Return (Some (NewMissingArgsErr (NS c))), w)
      else
        let domainName = Args c ! 0; ids = drop 1 (Args c) in
        if length ids < 1 then (Return (Some (NewMissingArgsErr (NS c))), w)
        else RunRecordDelete_loop c domainName ids w)"

definition RunRecordUpdate ::
  "('s, 'o) CmdConfig \<Rightarrow> ('s, 'o) world \<Rightarrow> outcome \<times> ('s, 'o) world" where
  "RunRecordUpdate c w =
     (if length (Args c) \<noteq> 1 then (Return (Some (NewMissingArgsErr (NS c))), w)
      else
        let domainName = Args c ! 0 in
        case GetInt (Doit c) (NS c) ArgRecordID of
          (recordID, Some err) \<Rightarrow> (Return (Some err), w)
        | (recordID, None) \<Rightarrow>
        case GetString (Doit c) (NS c) ArgRecordType of
          (rType, Some err) \<Rightarrow> (Return (Some err), w)
        | (rType, None) \<Rightarrow>
        case GetString (Doit c) (NS c) ArgRecordName of
          (rName, Some err) \<Rightarrow> (Return (Some err), w)
        | (rName, None) \<Rightarrow>
        case GetString (Doit c) (NS c) ArgRecordData of
          (rData, Some err) \<Rightarrow> (Return (Some err), w)
        | (rData, None) \<Rightarrow>
        case GetInt (Doit c) (NS c) ArgRecordPriority of
          (rPriority, Some err) \<Rightarrow> (Return (Some err), w)
        | (rPriority, None) \<Rightarrow>
        case GetInt (Doit c) (NS c) ArgRecordPort of
          (rPort, Some err) \<Rightarrow> (Return (Some err), w)
        | (rPort, None) \<Rightarrow>
        case GetInt (Doit c) (NS c) ArgRecordWeight of
          (rWeight, Some err) \<Rightarrow> (Return (Some err), w)
        | (rWeight, None) \<Rightarrow>
            let drcr = \<lparr>Type = rType, Name = rName, Data = rData,
                        Priority = rPriority, Port = rPort, Weight = rWeight\<rparr> in
            (case ds_EditRecord c domainName recordID drcr w of
               ((r, Some err), w') \<Rightarrow> (Return (Some err), w')
             | ((None, None), w') \<Rightarrow> (NilPointerPanic, w')
             | ((Some r, None), w') \<Rightarrow> c_Display c (domainRecord [r]) w'))"

text \<open>The service invocations a handler added to the log.\<close>

definition new_calls :: "('s, 'o) world \<Rightarrow> ('s, 'o) world \<Rightarrow> (call \<times> error option) list" where
  "new_calls w w' = drop (length (calls w)) (calls w')"

text \<open>
  The effect of a logged invocation on the remote state, and the state a whole log
  leaves behind when its invocations are run one after the other.
\<close>

fun effect :: "'s DomainsService \<Rightarrow> call \<Rightarrow> 's \<Rightarrow> 's" where
  "effect ds (CallCreate req) s = snd (Create ds req s)"
| "effect ds CallList s = snd (List ds s)"
| "effect ds (CallGet name) s = snd (Get ds name s)"
| "effect ds (CallDelete name) s = snd (Delete ds name s)"
| "effect ds (CallRecords name) s = snd (Records ds name s)"
| "effect ds (CallCreateRecord name req) s = snd (CreateRecord ds name req s)"
| "effect ds (CallEditRecord name rid req) s = snd (EditRecord ds name rid req s)"
| "effect ds (CallDeleteRecord name rid) s = snd (DeleteRecord ds name rid s)"

fun replay :: "'s DomainsService \<Rightarrow> call list \<Rightarrow> 's \<Rightarrow> 's" where
  "replay ds [] s = s"
| "replay ds (cl # cls) s = replay ds cls (effect ds cl s)"

section \<open>The generated mocks\<close>

text \<open>
  What \<^verbatim>\<open>_m.Called(...)\<close> hands back for a method, as the test configured it: the
  first return is \<^verbatim>\<open>nil\<close>, a value or a function of the call's arguments, the second
  an error, \<^verbatim>\<open>nil\<close> or a function of the call's arguments.
\<close>

datatype ('x, 'a) mock_ret = RetNil | RetValue 'a | RetFunc "'x \<Rightarrow> 'a"

datatype 'x mock_err = ErrNil | ErrValue error | ErrFunc "'x \<Rightarrow> error option"

type_synonym ('x, 'a) Arguments = "('x, 'a) mock_ret \<times> 'x mock_err"

definition ret_Error :: "'x mock_err \<Rightarrow> 'x \<Rightarrow> error option" where
  "ret_Error e x = (case e of ErrFunc rf \<Rightarrow> rf x | ErrValue v \<Rightarrow> Some v | ErrNil \<Rightarrow> None)"

text \<open>\<^verbatim>\<open>func (_m *RegionsService) List() (do.Regions, error)\<close>.\<close>

definition RegionsService_List :: "(unit, Region list) Arguments \<Rightarrow> Region list \<times> error option" where
  "RegionsService_List ret =
     (let r0 = (case fst ret of
                  RetFunc rf \<Rightarrow> rf ()
                | RetValue v \<Rightarrow> v
                | RetNil \<Rightarrow> []);
          r1 = (case snd ret of
                  ErrFunc rf \<Rightarrow> rf ()
                | e \<Rightarrow> ret_Error e ())
      in (r0, r1))"

text \<open>
  Modelled from the spec: the mock of the domains service is generated like the one of
  the regions service but is not among the sources at hand.  Section 4.3 of the
  specification: it records the invocations and returns the configured canned
  responses and errors.  Its state is the list of recorded invocations.
\<close>

definition mock_slice :: "('x, 'a list) Arguments \<Rightarrow> 'x \<Rightarrow> 'a list \<times> error option" where
  "mock_slice ret x =
     ((case fst ret of RetFunc rf \<Rightarrow> rf x | RetValue v \<Rightarrow> v | RetNil \<Rightarrow> []),
      ret_Error (snd ret) x)"

definition mock_ptr :: "('x, 'a option) Arguments \<Rightarrow> 'x \<Rightarrow> 'a option \<times> error option" where
  "mock_ptr ret x =
     ((case fst ret of RetFunc rf \<Rightarrow> rf x | RetValue v \<Rightarrow> v | RetNil \<Rightarrow> None),
      ret_Error (snd ret) x)"

record DomainsMock =
  on_List :: "(unit, Domain list) Arguments"
  on_Get :: "(string, Domain option) Arguments"
  on_Create :: "(DomainCreateRequest, Domain option) Arguments"
  on_Delete :: "string mock_err"
  on_Records :: "(string, DomainRecord list) Arguments"
  on_CreateRecord :: "(string \<times> DomainRecordEditRequest, DomainRecord option) Arguments"
  on_EditRecord :: "(string \<times> int \<times> DomainRecordEditRequest, DomainRecord option) Arguments"
  on_DeleteRecord :: "(string \<times> int) mock_err"

definition mocks_DomainsService :: "DomainsMock \<Rightarrow> (call list) DomainsService" where
  "mocks_DomainsService m =
     \<lparr>List = (\<lambda>s. (mock_slice (on_List m) (), s @ [CallList])),
      Get = (\<lambda>name s. (mock_ptr (on_Get m) name, s @ [CallGet name])),
      Create = (\<lambda>req s. (mock_ptr (on_Create m) req, s @ [CallCreate req])),
      Delete = (\<lambda>name s. (ret_Error (on_Delete m) name, s @ [CallDelete name])),
      Records = (\<lambda>name s. (mock_slice (on_Records m) name, s @ [CallRecords name])),
      CreateRecord = (\<lambda>name req s.
        (mock_ptr (on_CreateRecord m) (name, req), s @ [CallCreateRecord name req])),
      EditRecord = (\<lambda>name rid req s.
        (mock_ptr (on_EditRecord m) (name, rid, req), s @ [CallEditRecord name rid req])),
      DeleteRecord = (\<lambda>name rid s.
        (ret_Error (on_DeleteRecord m) (name, rid), s @ [CallDeleteRecord name rid]))\<rparr>"

section \<open>Fixtures\<close>

text \<open>
  Concrete collaborators on which the theorems below are instantiated: a flag store
  holding given values (a flag that was not set reads as the zero value), a displayer
  that appends to its output, one that fails, a mock whose every operation answers \<^verbatim>\<open>nil\<close>, and an in-memory service that keeps the
  ids of the records of one domain.
\<close>

definition flags :: "(string \<times> string) list \<Rightarrow> (string \<times> int) list \<Rightarrow> Config" where
  "flags strs ints =
     \<lparr>GetString = (\<lambda>ns key. (case map_of strs key of Some v \<Rightarrow> v | None \<Rightarrow> [], None)),
      GetInt = (\<lambda>ns key. (case map_of ints key of Some v \<Rightarrow> v | None \<Rightarrow> 0, None))\<rparr>"

definition display_ok :: "Displayable \<Rightarrow> Displayable list \<Rightarrow> error option \<times> Displayable list" where
  "display_ok item buf = (None, buf @ [item])"

definition display_broken :: "Displayable \<Rightarrow> Displayable list \<Rightarrow> error option \<times> Displayable list" where
  "display_broken item buf = (Some (Opaque 2), buf)"

definition quiet_mock :: DomainsMock where
  "quiet_mock =
     \<lparr>on_List = (RetNil, ErrNil), on_Get = (RetNil, ErrNil), on_Create = (RetNil, ErrNil),
      on_Delete = ErrNil, on_Records = (RetNil, ErrNil), on_CreateRecord = (RetNil, ErrNil),
      on_EditRecord = (RetNil, ErrNil), on_DeleteRecord = ErrNil\<rparr>"

definition store_DomainsService :: "(int list) DomainsService" where
  "store_DomainsService =
     \<lparr>List = (\<lambda>s. (([], None), s)),
      Get = (\<lambda>name s. ((None, Some (Opaque 404)), s)),
      Create = (\<lambda>req s. ((None, Some (Opaque 422)), s)),
      Delete = (\<lambda>name s. (None, [])),
      Records = (\<lambda>name s.
        ((map (\<lambda>n. \<lparr>rec_ID = n, rec_Type = ''A'', rec_Name = ''@'', rec_Data = [],
                     rec_Priority = 0, rec_Port = 0, rec_Weight = 0\<rparr>) s, None), s)),
      CreateRecord = (\<lambda>name req s. ((None, Some (Opaque 422)), s)),
      EditRecord = (\<lambda>name rid req s. ((None, Some (Opaque 404)), s)),
      DeleteRecord = (\<lambda>name rid s.
        if rid \<in> set s then (None, removeAll rid s) else (Some (Opaque 404), s))\<rparr>"

definition config ::
  "string list \<Rightarrow> Config \<Rightarrow> 's DomainsService \<Rightarrow>
     (Displayable \<Rightarrow> Displayable list \<Rightarrow> error option \<times> Displayable list) \<Rightarrow>
     ('s, Displayable list) CmdConfig" where
  "config args fl ds disp = \<lparr>NS = ''domain'', Args = args, Doit = fl, Domains = ds, Display = disp\<rparr>"

definition world0 :: "'s \<Rightarrow> ('s, Displayable list) world" where
  "world0 s = \<lparr>remote = s, out = [], calls = [], displayed = []\<rparr>"

definition store_config :: "string list \<Rightarrow> (int list, Displayable list) CmdConfig" where
  "store_config args = config args (flags [] []) store_DomainsService display_ok"

definition echo_mock :: DomainsMock where
  "echo_mock =
     quiet_mock\<lparr>on_Create :=
       (RetFunc (\<lambda>req. Some \<lparr>dom_Name = dcr_Name req, dom_IP = dcr_IPAddress req\<rparr>), ErrNil)\<rparr>"

definition canned_record :: DomainRecord where
  "canned_record =
     \<lparr>rec_ID = 1, rec_Type = ''A'', rec_Name = ''www'', rec_Data = ''10.0.0.1'',
      rec_Priority = 0, rec_Port = 0, rec_Weight = 0\<rparr>"

definition canned_mock :: DomainsMock where
  "canned_mock = quiet_mock\<lparr>on_CreateRecord := (RetValue (Some canned_record), ErrNil)\<rparr>"

definition list_mock :: "Domain list \<Rightarrow> DomainsMock" where
  "list_mock ds = quiet_mock\<lparr>on_List := (RetValue ds, ErrNil)\<rparr>"

definition two_domains :: "Domain list" where
  "two_domains =
     [\<lparr>dom_Name = ''example.com'', dom_IP = ''10.0.0.1''\<rparr>,
      \<lparr>dom_Name = ''example.org'', dom_IP = ''10.0.0.2''\<rparr>]"

definition mx_flags :: Config where
  "mx_flags =
     flags [(''record-type'', ''MX''), (''record-name'', ''mail''),
            (''record-data'', ''mx.example.com'')]
           [(''record-priority'', 10)]"

section \<open>Properties of the handlers\<close>

text \<open>
  A handler refuses an invocation with an error of kind \<open>k\<close> when it returns such an
  error and leaves everything outside untouched: no service invocation is logged, the
  remote state is the same, nothing is displayed.
\<close>

definition refused ::
  "error_kind \<Rightarrow> outcome \<times> ('s, 'o) world \<Rightarrow> ('s, 'o) world \<Rightarrow> bool" where
  "refused k res w =
     ((case fst res of Return (Some e) \<Rightarrow> kind e = k | Return None \<Rightarrow> False
       | NilPointerPanic \<Rightarrow> False) \<and>
      new_calls w (snd res) = [] \<and> snd res = w)"

text \<open>
  A log and an outcome agree on error propagation when every logged invocation that
  returned an error is the last one of the log and its error is what the handler
  returns.
\<close>

definition propagates :: "(call \<times> error option) list \<Rightarrow> outcome \<Rightarrow> bool" where
  "propagates tr r =
     (\<forall>j \<in> {..<length tr}.
        case snd (tr ! j) of
          None \<Rightarrow> True
        | Some e \<Rightarrow> r = Return (Some e) \<and> Suc j = length tr)"

text \<open>
  The logs the loop of \<^verbatim>\<open>RunRecordDelete\<close> can leave for a list of ids, with the
  outcome that goes with each: the loop stops without an invocation at an id that does
  not parse, stops after the invocation that returned an error, and goes on otherwise.
\<close>

fun delete_log ::
  "string \<Rightarrow> string list \<Rightarrow> (call \<times> error option) list \<Rightarrow> outcome \<Rightarrow> bool" where
  "delete_log d [] tr r = (tr = [] \<and> r = Return None)"
| "delete_log d (i # ids) tr r =
     (case Atoi i of
        Inl ne \<Rightarrow> tr = [] \<and> r = Return (Some (Errorf ''invalid record id %q'' [i]))
      | Inr n \<Rightarrow>
          (case tr of
             [] \<Rightarrow> False
           | (cl, err) # tr' \<Rightarrow>
               cl = CallDeleteRecord d n \<and>
               (case err of
                  Some e \<Rightarrow> tr' = [] \<and> r = Return (Some e)
                | None \<Rightarrow> delete_log d ids tr' r)))"

text \<open>
  \<^verbatim>\<open>DeleteRecord\<close>, invoked on the given record numbers one after the other from
  the given remote state, returns no error for any of them.
\<close>

fun all_succeed :: "'s DomainsService \<Rightarrow> string \<Rightarrow> int list \<Rightarrow> 's \<Rightarrow> bool" where
  "all_succeed ds d [] s = True"
| "all_succeed ds d (n # ns) s =
     (fst (DeleteRecord ds d n s) = None \<and> all_succeed ds d ns (snd (DeleteRecord ds d n s)))"

subsection \<open>What \<^verbatim>\<open>Atoi\<close> accepts\<close>

lemma ParseUint_loop_digits:
  "ParseUint_loop n s = Inr m \<Longrightarrow> list_all (\<lambda>ch. digit_of ch \<noteq> None) s"
  by (induction s arbitrary: n) (auto split: option.splits if_splits)

lemma Atoi_decimal_syntax: "Atoi s = Inr n \<Longrightarrow> decimal_syntax s"
  unfolding Atoi_def ParseInt_def ParseUint_def decimal_syntax_def Let_def
  by (auto split: if_splits sum.splits NumError.splits dest: ParseUint_loop_digits)

lemma Atoi_rejects_malformed: "\<not> decimal_syntax s \<Longrightarrow> \<exists>e. Atoi s = Inl e"
  using Atoi_decimal_syntax [of s] by (cases "Atoi s") auto

lemma digit_of_range: "digit_of ch = Some d \<Longrightarrow> 0 \<le> d \<and> d \<le> 9"
  by (auto simp: digit_of_def Let_def split: if_splits)

lemma ParseUint_loop_nonneg: "ParseUint_loop n s = Inr m \<Longrightarrow> 0 \<le> n \<Longrightarrow> 0 \<le> m"
proof (induction s arbitrary: n)
  case Nil
  then show ?case by simp
next
  case (Cons ch s)
  from Cons.prems(1) obtain d where d: "digit_of ch = Some d"
    and rest: "ParseUint_loop (n * 10 + d) s = Inr m"
    by (auto split: option.splits if_splits)
  from digit_of_range [OF d] Cons.prems(2) have "0 \<le> n * 10 + d" by simp
  from Cons.IH [OF rest this] show ?case .
qed

lemma ParseUint_nonneg: "ParseUint s = Inr m \<Longrightarrow> 0 \<le> m"
  by (auto simp: ParseUint_def split: if_splits dest: ParseUint_loop_nonneg)

lemma Atoi_range: "Atoi s = Inr n \<Longrightarrow> - (2 ^ 63) \<le> n \<and> n < 2 ^ 63"
  unfolding Atoi_def ParseInt_def Let_def
  by (auto split: if_splits sum.splits NumError.splits dest: ParseUint_nonneg)

text \<open>The generated \<^verbatim>\<open>List\<close> of the regions mock answers as every mocked list
  operation does.\<close>

lemma RegionsService_List_slice: "RegionsService_List ret = mock_slice ret ()"
  by (cases ret; cases "snd ret")
    (auto simp: RegionsService_List_def mock_slice_def ret_Error_def Let_def)

subsection \<open>Argument counts\<close>

lemma new_calls_refl: "new_calls w w = []"
  by (simp add: new_calls_def)

lemma refused_MissingArgs:
  "refused MissingArguments (Return (Some (NewMissingArgsErr ns)), w) w"
  by (simp add: refused_def NewMissingArgsErr_def new_calls_refl)

text \<open>
  C1.  Every handler that takes positional arguments, called with fewer of them than the
  command requires (one; two for \<^verbatim>\<open>RunRecordDelete\<close>, the domain and at least one id),
  returns a missing-arguments error and invokes no operation of the service: the log
  of invocations and the remote state are as before.
\<close>

theorem too_few_arguments_refused:
  "(length (Args c) < 1 \<longrightarrow>
      refused MissingArguments (RunDomainCreate c w) w \<and>
      refused MissingArguments (RunDomainGet c w) w \<and>
      refused MissingArguments (RunDomainDelete c w) w \<and>
      refused MissingArguments (RunRecordList c w) w \<and>
      refused MissingArguments (RunRecordCreate c w) w \<and>
      refused MissingArguments (RunRecordUpdate c w) w) \<and>
   (length (Args c) < 2 \<longrightarrow> refused MissingArguments (RunRecordDelete c w) w)"
  by (simp add: RunDomainCreate_def RunDomainGet_def RunDomainDelete_def RunRecordList_def
      RunRecordCreate_def RunRecordUpdate_def RunRecordDelete_def refused_MissingArgs)

theorem too_few_arguments_refused_witness:
  "refused MissingArguments
     (RunDomainCreate (config [] (flags [] []) (mocks_DomainsService quiet_mock) display_ok)
        (world0 [])) (world0 []) \<and>
   refused MissingArguments
     (RunRecordUpdate (config [] (flags [] []) (mocks_DomainsService quiet_mock) display_ok)
        (world0 [])) (world0 []) \<and>
   refused MissingArguments
     (RunRecordDelete (config [''example.com''] (flags [] []) (mocks_DomainsService quiet_mock)
        display_ok) (world0 [])) (world0 [])"
  using
    too_few_arguments_refused [of
      "config [] (flags [] []) (mocks_DomainsService quiet_mock) display_ok" "world0 []"]
    too_few_arguments_refused [of
      "config [''example.com''] (flags [] []) (mocks_DomainsService quiet_mock) display_ok"
      "world0 []"]
  by (simp add: config_def)

text \<open>
  C9.  The handlers that take exactly one positional argument test for a count different
  from one: called with more than one argument they return a missing-arguments error
  as well, and invoke no operation of the service.
\<close>

theorem too_many_arguments_refused:
  "1 < length (Args c) \<Longrightarrow>
     refused MissingArguments (RunDomainCreate c w) w \<and>
     refused MissingArguments (RunDomainGet c w) w \<and>
     refused MissingArguments (RunDomainDelete c w) w \<and>
     refused MissingArguments (RunRecordList c w) w \<and>
     refused MissingArguments (RunRecordCreate c w) w \<and>
     refused MissingArguments (RunRecordUpdate c w) w"
  by (simp add: RunDomainCreate_def RunDomainGet_def RunDomainDelete_def RunRecordList_def
      RunRecordCreate_def RunRecordUpdate_def refused_MissingArgs)

theorem too_many_arguments_refused_witness:
  "refused MissingArguments
     (RunDomainGet (config [''example.com'', ''example.org''] (flags [] [])
        (mocks_DomainsService quiet_mock) display_ok) (world0 [])) (world0 []) \<and>
   refused MissingArguments
     (RunRecordCreate (config [''example.com'', ''example.org''] (flags [] [])
        (mocks_DomainsService quiet_mock) display_ok) (world0 [])) (world0 [])"
  using
    too_many_arguments_refused [of
      "config [''example.com'', ''example.org''] (flags [] []) (mocks_DomainsService quiet_mock)
         display_ok" "world0 []"]
  by (simp add: config_def)

subsection \<open>The loop of \<^verbatim>\<open>RunRecordDelete\<close>\<close>

lemma new_calls_append: "calls w' = calls w @ tr \<Longrightarrow> new_calls w w' = tr"
  by (simp add: new_calls_def)

lemma ds_DeleteRecord_frame:
  "ds_DeleteRecord c d n w = (err, w1) \<Longrightarrow>
     calls w1 = calls w @ [(CallDeleteRecord d n, err)] \<and>
     remote w1 = snd (DeleteRecord (Domains c) d n (remote w)) \<and>
     out w1 = out w \<and> displayed w1 = displayed w"
  unfolding ds_DeleteRecord_def by (cases "DeleteRecord (Domains c) d n (remote w)") auto

lemma loop_Inl:
  "Atoi i = Inl ne \<Longrightarrow>
     RunRecordDelete_loop c d (i # ids) w =
       (Return (Some (Errorf ''invalid record id %q'' [i])), w)"
  by simp

lemma loop_Some:
  "Atoi i = Inr n \<Longrightarrow> ds_DeleteRecord c d n w = (Some e, w1) \<Longrightarrow>
     RunRecordDelete_loop c d (i # ids) w = (Return (Some e), w1)"
  by simp

lemma loop_None:
  "Atoi i = Inr n \<Longrightarrow> ds_DeleteRecord c d n w = (None, w1) \<Longrightarrow>
     RunRecordDelete_loop c d (i # ids) w = RunRecordDelete_loop c d ids w1"
  by simp

lemma loop_log:
  "RunRecordDelete_loop c d ids w = (r, w') \<Longrightarrow>
     \<exists>tr. calls w' = calls w @ tr \<and> delete_log d ids tr r \<and>
          remote w' = replay (Domains c) (map fst tr) (remote w) \<and>
          out w' = out w \<and> displayed w' = displayed w"
proof (induction ids arbitrary: w)
  case Nil
  then show ?case by simp
next
  case (Cons i ids)
  show ?case
  proof (cases "Atoi i")
    case (Inl ne)
    from Cons.prems loop_Inl [OF Inl, of c d ids w]
    have "r = Return (Some (Errorf ''invalid record id %q'' [i]))" and "w' = w"
      by simp_all
    with Inl show ?thesis
      by (intro exI [of _ "[]"]) simp
  next
    case (Inr n)
    obtain err w1 where step: "ds_DeleteRecord c d n w = (err, w1)"
      by (cases "ds_DeleteRecord c d n w")
    note w1 = ds_DeleteRecord_frame [OF step]
    show ?thesis
    proof (cases err)
      case None
      from Cons.prems loop_None [OF Inr step [unfolded None], of ids]
      have "RunRecordDelete_loop c d ids w1 = (r, w')" by simp
      from Cons.IH [OF this] obtain tr where
        tr: "calls w' = calls w1 @ tr" "delete_log d ids tr r"
          "remote w' = replay (Domains c) (map fst tr) (remote w1)"
          "out w' = out w1" "displayed w' = displayed w1"
        by (elim exE conjE)
      show ?thesis
        using tr w1 Inr None
        by (intro exI [of _ "(CallDeleteRecord d n, err) # tr"]) simp
    next
      case (Some e)
      from Cons.prems loop_Some [OF Inr step [unfolded Some], of ids]
      have "r = Return (Some e)" and "w' = w1" by simp_all
      then show ?thesis
        using w1 Inr Some
        by (intro exI [of _ "[(CallDeleteRecord d n, err)]"]) simp
    qed
  qed
qed

lemma delete_log_length: "delete_log d ids tr r \<Longrightarrow> length tr \<le> length ids"
  by (induction ids arbitrary: tr) (auto split: sum.splits list.splits option.splits)

lemma delete_log_nth:
  "delete_log d ids tr r \<Longrightarrow> j < length tr \<Longrightarrow>
     \<exists>n. Atoi (ids ! j) = Inr n \<and> fst (tr ! j) = CallDeleteRecord d n"
proof (induction ids arbitrary: tr j)
  case Nil
  then show ?case by simp
next
  case (Cons i ids)
  then show ?case
    by (cases j) (auto split: sum.splits list.splits option.splits)
qed

lemma delete_log_error:
  "delete_log d ids tr r \<Longrightarrow> j < length tr \<Longrightarrow> snd (tr ! j) = Some e \<Longrightarrow>
     r = Return (Some e) \<and> Suc j = length tr"
proof (induction ids arbitrary: tr j)
  case Nil
  then show ?case by simp
next
  case (Cons i ids)
  then show ?case
    by (cases j) (auto split: sum.splits list.splits option.splits)
qed

lemma delete_log_nil:
  "delete_log d ids tr (Return None) \<Longrightarrow> length tr = length ids"
  by (induction ids arbitrary: tr) (auto split: sum.splits list.splits option.splits)

lemma delete_log_malformed:
  "delete_log d ids tr r \<Longrightarrow> k < length ids \<Longrightarrow> Atoi (ids ! k) = Inl ne \<Longrightarrow> length tr \<le> k"
proof (induction ids arbitrary: tr k)
  case Nil
  then show ?case by simp
next
  case (Cons i ids)
  then show ?case
    by (cases k) (auto split: sum.splits list.splits option.splits)
qed

lemma delete_log_reaches:
  "delete_log d ids tr r \<Longrightarrow> k < length ids \<Longrightarrow> Atoi (ids ! k) = Inl ne \<Longrightarrow>
     \<forall>j<k. \<exists>n. Atoi (ids ! j) = Inr n \<Longrightarrow> \<forall>x \<in> set tr. snd x = None \<Longrightarrow>
     r = Return (Some (Errorf ''invalid record id %q'' [ids ! k])) \<and> length tr = k"
proof (induction ids arbitrary: tr k)
  case Nil
  then show ?case by simp
next
  case (Cons i ids)
  show ?case
  proof (cases k)
    case 0
    with Cons.prems show ?thesis by simp
  next
    case (Suc k')
    from Cons.prems(4) Suc have i: "\<exists>n. Atoi i = Inr n" by auto
    from Cons.prems(4) Suc have rest: "\<forall>j<k'. \<exists>n. Atoi (ids ! j) = Inr n" by auto
    from i Cons.prems(1,5) obtain x tr' where tr: "tr = x # tr'" "delete_log d ids tr' r"
      by (auto split: sum.splits list.splits option.splits)
    have k': "k' < length ids" "Atoi (ids ! k') = Inl ne"
      using Cons.prems(2,3) Suc by simp_all
    have none: "\<forall>x \<in> set tr'. snd x = None"
      using Cons.prems(5) tr(1) by simp
    from Cons.IH [OF tr(2) k' rest none]
    show ?thesis using Suc tr(1) by simp
  qed
qed

lemma delete_log_stops:
  "delete_log d ids tr r \<Longrightarrow> length tr < length ids \<Longrightarrow>
     (\<exists>ne. Atoi (ids ! length tr) = Inl ne) \<or> (tr \<noteq> [] \<and> (\<exists>e. snd (last tr) = Some e))"
proof (induction ids arbitrary: tr)
  case Nil
  then show ?case by simp
next
  case (Cons i ids)
  show ?case
  proof (cases "Atoi i")
    case (Inl ne)
    with Cons.prems show ?thesis by simp
  next
    case (Inr n)
    with Cons.prems(1) obtain cl err tr' where tr: "tr = (cl, err) # tr'"
      by (cases tr) auto
    show ?thesis
    proof (cases err)
      case (Some e)
      with Inr tr Cons.prems(1) show ?thesis by simp
    next
      case None
      with Inr tr Cons.prems have log: "delete_log d ids tr' r"
        and len: "length tr' < length ids" by simp_all
      from Cons.IH [OF log len] tr show ?thesis by auto
    qed
  qed
qed

lemma delete_log_complete:
  "delete_log d ids tr r \<Longrightarrow> length tr = length ids \<Longrightarrow> \<forall>x \<in> set tr. snd x = None \<Longrightarrow>
     r = Return None"
  by (induction ids arbitrary: tr) (auto split: sum.splits list.splits option.splits)

lemma ds_DeleteRecord_result:
  "ds_DeleteRecord c d n w = (err, w1) \<Longrightarrow> err = fst (DeleteRecord (Domains c) d n (remote w))"
  unfolding ds_DeleteRecord_def by (cases "DeleteRecord (Domains c) d n (remote w)") auto

text \<open>A stretch of ids that parse and whose deletions succeed is passed by the loop,
  which leaves the state those deletions produce.\<close>

lemma loop_prefix:
  "map Atoi pre = map Inr ns \<Longrightarrow> all_succeed (Domains c) d ns (remote w) \<Longrightarrow>
     \<exists>w1. RunRecordDelete_loop c d (pre @ rest) w = RunRecordDelete_loop c d rest w1 \<and>
          remote w1 = replay (Domains c) (map (CallDeleteRecord d) ns) (remote w) \<and>
          calls w1 = calls w @ map (\<lambda>n. (CallDeleteRecord d n, None)) ns"
proof (induction pre arbitrary: ns w)
  case Nil
  then have "ns = []" by simp
  then show ?case by (intro exI [of _ w]) simp
next
  case (Cons i pre)
  from Cons.prems(1) obtain n ns' where ns: "ns = n # ns'" and i: "Atoi i = Inr n"
    and pre: "map Atoi pre = map Inr ns'"
    by (cases ns) auto
  obtain err w0 where step: "ds_DeleteRecord c d n w = (err, w0)"
    by (cases "ds_DeleteRecord c d n w")
  note w0 = ds_DeleteRecord_frame [OF step]
  from ds_DeleteRecord_result [OF step] Cons.prems(2) ns have err: "err = None" by simp
  from Cons.prems(2) ns w0 have ok: "all_succeed (Domains c) d ns' (remote w0)" by simp
  from Cons.IH [OF pre ok] obtain w1 where
    w1: "RunRecordDelete_loop c d (pre @ rest) w0 = RunRecordDelete_loop c d rest w1"
      "remote w1 = replay (Domains c) (map (CallDeleteRecord d) ns') (remote w0)"
      "calls w1 = calls w0 @ map (\<lambda>n. (CallDeleteRecord d n, None)) ns'"
    by (elim exE conjE)
  have "RunRecordDelete_loop c d ((i # pre) @ rest) w = RunRecordDelete_loop c d rest w1"
    using loop_None [OF i step [unfolded err], of "pre @ rest"] w1(1) by simp
  moreover have "remote w1 = replay (Domains c) (map (CallDeleteRecord d) ns) (remote w)"
    using w1(2) w0 ns by simp
  moreover have "calls w1 = calls w @ map (\<lambda>n. (CallDeleteRecord d n, None)) ns"
    using w1(3) w0 ns err by simp
  ultimately show ?case by (intro exI [of _ w1] conjI)
qed

text \<open>What \<^verbatim>\<open>RunRecordDelete\<close> leaves behind, by the number of ids it was given.\<close>

lemma RunRecordDelete_no_ids:
  "Args c = [d] \<Longrightarrow> RunRecordDelete c w = (Return (Some (NewMissingArgsErr (NS c))), w)"
  by (simp add: RunRecordDelete_def)

lemma RunRecordDelete_ids:
  "Args c = d # i # ids \<Longrightarrow> RunRecordDelete c w = RunRecordDelete_loop c d (i # ids) w"
  by (simp add: RunRecordDelete_def)

lemma RunRecordDelete_log:
  assumes "Args c = d # ids" and "ids \<noteq> []" and "RunRecordDelete c w = (r, w')"
  shows "delete_log d ids (new_calls w w') r \<and>
         calls w' = calls w @ new_calls w w' \<and>
         remote w' = replay (Domains c) (map fst (new_calls w w')) (remote w)"
proof -
  from assms(2) obtain i ids' where ids: "ids = i # ids'" by (cases ids) auto
  from RunRecordDelete_ids [of c d i ids' w] assms(1,3) ids
  have "RunRecordDelete_loop c d ids w = (r, w')" by simp
  from loop_log [OF this] obtain tr where
    tr: "calls w' = calls w @ tr" "delete_log d ids tr r"
      "remote w' = replay (Domains c) (map fst tr) (remote w)"
    by (elim exE conjE)
  from new_calls_append [OF tr(1)] tr show ?thesis by simp
qed

text \<open>Runs of \<^verbatim>\<open>RunRecordDelete\<close> on the in-memory service holding records 1, 2 and 3.\<close>

lemma run_delete_1_5_3:
  "RunRecordDelete (store_config [''example.com'', ''1'', ''5'', ''3'']) (world0 [1, 2, 3]) =
     (Return (Some (Opaque 404)),
      \<lparr>remote = [2, 3], out = [],
       calls = [(CallDeleteRecord ''example.com'' 1, None),
                (CallDeleteRecord ''example.com'' 5, Some (Opaque 404))],
       displayed = []\<rparr>)"
  by code_simp

lemma run_delete_1_2_x_3:
  "RunRecordDelete (store_config [''example.com'', ''1'', ''2'', ''x'', ''3'']) (world0 [1, 2, 3]) =
     (Return (Some (Errorf ''invalid record id %q'' [''x''])),
      \<lparr>remote = [3], out = [],
       calls = [(CallDeleteRecord ''example.com'' 1, None),
                (CallDeleteRecord ''example.com'' 2, None)],
       displayed = []\<rparr>)"
  by code_simp

lemma run_delete_3_7x_1:
  "RunRecordDelete (store_config [''example.com'', ''3'', ''7x'', ''1'']) (world0 [1, 2, 3]) =
     (Return (Some (Errorf ''invalid record id %q'' [''7x''])),
      \<lparr>remote = [1, 2], out = [],
       calls = [(CallDeleteRecord ''example.com'' 3, None)],
       displayed = []\<rparr>)"
  by code_simp

lemma run_delete_x_y:
  "RunRecordDelete (store_config [''example.com'', ''x'', ''y'']) (world0 [1, 2, 3]) =
     (Return (Some (Errorf ''invalid record id %q'' [''x''])),
      \<lparr>remote = [1, 2, 3], out = [], calls = [], displayed = []\<rparr>)"
  by code_simp

lemma Args_store_config: "Args (store_config args) = args"
  by (simp add: store_config_def config_def)

lemma Domains_store_config: "Domains (store_config args) = store_DomainsService"
  by (simp add: store_config_def config_def)

lemma calls_world0: "calls (world0 s) = []"
  by (simp add: world0_def)

lemma remote_world0: "remote (world0 s) = s"
  by (simp add: world0_def)

text \<open>
  C2.  \<^verbatim>\<open>RunRecordDelete\<close>, given a domain and a list of ids, invokes
  \<^verbatim>\<open>DeleteRecord\<close> on the ids in the order given: the invocations it logs are those
  for an initial stretch of the list, one per id, each with the number the id parses to.
  An invocation that returned an error is the last one logged, so no later id is
  attempted, and its error is the error the handler returns.  When the handler returns
  \<^verbatim>\<open>nil\<close>, every id was invoked.  The stretch ends before the end of the list only
  for a reason: the next id does not parse, or the last logged invocation returned an
  error.  When every id was invoked without an error, the handler returns \<^verbatim>\<open>nil\<close>.
\<close>

theorem RunRecordDelete_in_order_until_first_error:
  assumes "Args c = domainName # ids"
    and "RunRecordDelete c w = (r, w')"
    and "tr = new_calls w w'"
  shows "calls w' = calls w @ tr \<and>
         length tr \<le> length ids \<and>
         (\<forall>j<length tr. \<exists>n. Atoi (ids ! j) = Inr n \<and>
                               fst (tr ! j) = CallDeleteRecord domainName n) \<and>
         (\<forall>j<length tr. \<forall>e. snd (tr ! j) = Some e \<longrightarrow>
                               r = Return (Some e) \<and> Suc j = length tr) \<and>
         (r = Return None \<longrightarrow> length tr = length ids) \<and>
         (length tr < length ids \<longrightarrow>
            (\<exists>ne. Atoi (ids ! length tr) = Inl ne) \<or>
            (tr \<noteq> [] \<and> (\<exists>e. snd (last tr) = Some e))) \<and>
         (ids \<noteq> [] \<and> length tr = length ids \<and> (\<forall>x \<in> set tr. snd x = None) \<longrightarrow>
            r = Return None)"
proof (cases "ids = []")
  case True
  with assms(1,2) RunRecordDelete_no_ids [of c domainName w]
  have "w' = w" and "r = Return (Some (NewMissingArgsErr (NS c)))" by simp_all
  with assms(3) True show ?thesis by (simp add: new_calls_refl)
next
  case False
  from RunRecordDelete_log [OF assms(1) False assms(2)] assms(3)
  have log: "delete_log domainName ids tr r" and app: "calls w' = calls w @ tr"
    by simp_all
  have nil: "r = Return None \<longrightarrow> length tr = length ids"
    using log delete_log_nil by blast
  have stops: "length tr < length ids \<longrightarrow>
      (\<exists>ne. Atoi (ids ! length tr) = Inl ne) \<or> (tr \<noteq> [] \<and> (\<exists>e. snd (last tr) = Some e))"
    using delete_log_stops [OF log] by blast
  have complete: "ids \<noteq> [] \<and> length tr = length ids \<and> (\<forall>x \<in> set tr. snd x = None) \<longrightarrow>
      r = Return None"
    using delete_log_complete [OF log] by blast
  have order: "\<forall>j<length tr. \<exists>n. Atoi (ids ! j) = Inr n \<and>
      fst (tr ! j) = CallDeleteRecord domainName n"
    using delete_log_nth [OF log] by blast
  have errs: "\<forall>j<length tr. \<forall>e. snd (tr ! j) = Some e \<longrightarrow>
      r = Return (Some e) \<and> Suc j = length tr"
    using delete_log_error [OF log] by blast
  from app delete_log_length [OF log] order errs nil stops complete
  show ?thesis by (intro conjI)
qed

theorem RunRecordDelete_in_order_until_first_error_witness:
  "Args (store_config [''example.com'', ''1'', ''5'', ''3'']) = ''example.com'' # [''1'', ''5'', ''3''] \<and>
   fst (RunRecordDelete (store_config [''example.com'', ''1'', ''5'', ''3'']) (world0 [1, 2, 3])) =
     Return (Some (Opaque 404)) \<and>
   new_calls (world0 [1, 2, 3])
     (snd (RunRecordDelete (store_config [''example.com'', ''1'', ''5'', ''3'']) (world0 [1, 2, 3]))) =
     [(CallDeleteRecord ''example.com'' 1, None),
      (CallDeleteRecord ''example.com'' 5, Some (Opaque 404))] \<and>
   length (new_calls (world0 [1, 2, 3])
     (snd (RunRecordDelete (store_config [''example.com'', ''1'', ''5'', ''3'']) (world0 [1, 2, 3])))) \<le>
     length [''1'', ''5'', ''3'']"
proof -
  have args: "Args (store_config [''example.com'', ''1'', ''5'', ''3'']) =
      ''example.com'' # [''1'', ''5'', ''3'']"
    by (simp add: Args_store_config)
  note inst = RunRecordDelete_in_order_until_first_error [OF args run_delete_1_5_3 refl]
  note len = inst [THEN conjunct2, THEN conjunct1]
  have tr: "new_calls (world0 [1, 2, 3])
      (snd (RunRecordDelete (store_config [''example.com'', ''1'', ''5'', ''3'']) (world0 [1, 2, 3]))) =
      [(CallDeleteRecord ''example.com'' 1, None),
       (CallDeleteRecord ''example.com'' 5, Some (Opaque 404))]"
    by (simp add: run_delete_1_5_3 new_calls_def calls_world0)
  have res: "fst (RunRecordDelete (store_config [''example.com'', ''1'', ''5'', ''3''])
      (world0 [1, 2, 3])) = Return (Some (Opaque 404))"
    by (simp add: run_delete_1_5_3)
  from len have "length (new_calls (world0 [1, 2, 3])
      (snd (RunRecordDelete (store_config [''example.com'', ''1'', ''5'', ''3''])
        (world0 [1, 2, 3])))) \<le> length [''1'', ''5'', ''3'']"
    by (simp only: run_delete_1_5_3 snd_conv)
  with args res tr show ?thesis by (intro conjI)
qed

text \<open>
  C6 as stated fails: with the ids \<^verbatim>\<open>x\<close> and \<^verbatim>\<open>y\<close>, neither of which is an integer,
  the handler stops at \<^verbatim>\<open>x\<close> and the error it returns names \<^verbatim>\<open>x\<close>, not \<^verbatim>\<open>y\<close>.
\<close>

theorem malformed_id_not_always_named:
  "Atoi ''y'' = Inl ErrSyntax \<and>
   fst (RunRecordDelete (store_config [''example.com'', ''x'', ''y'']) (world0 [1, 2, 3])) =
     Return (Some (Errorf ''invalid record id %q'' [''x''])) \<and>
   fst (RunRecordDelete (store_config [''example.com'', ''x'', ''y'']) (world0 [1, 2, 3])) \<noteq>
     Return (Some (Errorf ''invalid record id %q'' [''y'']))"
proof -
  have "Atoi ''y'' = Inl ErrSyntax" by code_simp
  then show ?thesis by (simp add: run_delete_x_y)
qed

text \<open>
  C6, amended.  For an id that \<^verbatim>\<open>strconv.Atoi\<close> rejects (as it does every string that
  is not an optional sign followed by digits), \<^verbatim>\<open>RunRecordDelete\<close> never
  invokes \<^verbatim>\<open>DeleteRecord\<close> for that id or for an id after it: the logged invocations
  are those of ids before it, in order.  When the loop reaches the id, that is, every
  id before it parses and no invocation returned an error, the handler returns the
  invalid-input error \<^verbatim>\<open>invalid record id %q\<close> naming that id.
\<close>

theorem malformed_id_stops_deletion:
  assumes "Args c = domainName # ids"
    and "k < length ids"
    and "Atoi (ids ! k) = Inl ne"
    and "RunRecordDelete c w = (r, w')"
    and "tr = new_calls w w'"
  shows "length tr \<le> k \<and>
         (\<forall>j<length tr. \<exists>n. Atoi (ids ! j) = Inr n \<and>
                               fst (tr ! j) = CallDeleteRecord domainName n) \<and>
         ((\<forall>j<k. \<exists>n. Atoi (ids ! j) = Inr n) \<and> (\<forall>x \<in> set tr. snd x = None) \<longrightarrow>
            r = Return (Some (Errorf ''invalid record id %q'' [ids ! k])) \<and>
            kind (Errorf ''invalid record id %q'' [ids ! k]) = InvalidInput)"
proof -
  from assms(2) have "ids \<noteq> []" by auto
  from RunRecordDelete_log [OF assms(1) this assms(4)] assms(5)
  have log: "delete_log domainName ids tr r" by simp
  have before: "length tr \<le> k"
    by (rule delete_log_malformed [OF log assms(2,3)])
  have order: "\<forall>j<length tr. \<exists>n. Atoi (ids ! j) = Inr n \<and>
      fst (tr ! j) = CallDeleteRecord domainName n"
    using delete_log_nth [OF log] by blast
  have reached: "(\<forall>j<k. \<exists>n. Atoi (ids ! j) = Inr n) \<and> (\<forall>x \<in> set tr. snd x = None) \<longrightarrow>
      r = Return (Some (Errorf ''invalid record id %q'' [ids ! k])) \<and>
      kind (Errorf ''invalid record id %q'' [ids ! k]) = InvalidInput"
  proof (intro impI, elim conjE)
    assume "\<forall>j<k. \<exists>n. Atoi (ids ! j) = Inr n" and "\<forall>x \<in> set tr. snd x = None"
    from delete_log_reaches [OF log assms(2,3) this]
    show "r = Return (Some (Errorf ''invalid record id %q'' [ids ! k])) \<and>
      kind (Errorf ''invalid record id %q'' [ids ! k]) = InvalidInput"
      by simp
  qed
  from before order reached show ?thesis by (intro conjI)
qed

theorem malformed_id_stops_deletion_witness:
  "Atoi ([''3'', ''7x'', ''1''] ! 1) = Inl ErrSyntax \<and>
   Atoi ''3'' = Inr 3 \<and>
   new_calls (world0 [1, 2, 3])
     (snd (RunRecordDelete (store_config [''example.com'', ''3'', ''7x'', ''1'']) (world0 [1, 2, 3]))) =
     [(CallDeleteRecord ''example.com'' 3, None)] \<and>
   length (new_calls (world0 [1, 2, 3])
     (snd (RunRecordDelete (store_config [''example.com'', ''3'', ''7x'', ''1''])
       (world0 [1, 2, 3])))) \<le> 1 \<and>
   fst (RunRecordDelete (store_config [''example.com'', ''3'', ''7x'', ''1'']) (world0 [1, 2, 3])) =
     Return (Some (Errorf ''invalid record id %q'' [''7x'']))"
proof -
  have args: "Args (store_config [''example.com'', ''3'', ''7x'', ''1'']) =
      ''example.com'' # [''3'', ''7x'', ''1'']"
    by (simp add: Args_store_config)
  have k: "(1::nat) < length [''3'', ''7x'', ''1'']" by simp
  have bad: "Atoi ([''3'', ''7x'', ''1''] ! 1) = Inl ErrSyntax" by code_simp
  have good: "Atoi ''3'' = Inr 3" by code_simp
  note inst = malformed_id_stops_deletion [OF args k bad run_delete_3_7x_1 refl]
  note before = inst [THEN conjunct1]
  have tr: "new_calls (world0 [1, 2, 3])
      (snd (RunRecordDelete (store_config [''example.com'', ''3'', ''7x'', ''1'']) (world0 [1, 2, 3]))) =
      [(CallDeleteRecord ''example.com'' 3, None)]"
    by (simp add: run_delete_3_7x_1 new_calls_def calls_world0)
  have res: "fst (RunRecordDelete (store_config [''example.com'', ''3'', ''7x'', ''1''])
      (world0 [1, 2, 3])) = Return (Some (Errorf ''invalid record id %q'' [''7x'']))"
    by (simp add: run_delete_3_7x_1)
  from before have "length (new_calls (world0 [1, 2, 3])
      (snd (RunRecordDelete (store_config [''example.com'', ''3'', ''7x'', ''1''])
        (world0 [1, 2, 3])))) \<le> 1"
    by (simp only: run_delete_3_7x_1 snd_conv)
  with bad good tr res show ?thesis by (intro conjI)
qed

text \<open>
  C10.  \<^verbatim>\<open>RunRecordDelete\<close> has no rollback.  Let the ids before position \<open>k\<close>
  parse to the numbers \<open>ns\<close>, let the deletions of \<open>ns\<close> succeed one after the other
  from the initial remote state and leave the state \<open>s\<close>, and let the handler fail at
  the id at position \<open>k\<close>: the id does not parse, or its deletion returns an error in
  \<open>s\<close>.  Then the handler returns that error, after having invoked \<^verbatim>\<open>DeleteRecord\<close>
  for \<open>ns\<close> (and for the failing id, when it parses) and nothing else, and the remote
  state it leaves is \<open>s\<close> (followed by what the failing invocation itself did): the
  deletions already made are not undone.
\<close>

theorem RunRecordDelete_no_rollback:
  assumes "Args c = domainName # ids"
    and "RunRecordDelete c w = (r, w')"
    and "k < length ids"
    and "map Atoi (take k ids) = map Inr ns"
    and "all_succeed (Domains c) domainName ns (remote w)"
    and "s = replay (Domains c) (map (CallDeleteRecord domainName) ns) (remote w)"
    and "(\<exists>ne. Atoi (ids ! k) = Inl ne) \<or>
         (\<exists>n e. Atoi (ids ! k) = Inr n \<and> fst (DeleteRecord (Domains c) domainName n s) = Some e)"
  shows "(case Atoi (ids ! k) of
            Inl ne \<Rightarrow>
              r = Return (Some (Errorf ''invalid record id %q'' [ids ! k])) \<and>
              remote w' = s \<and>
              new_calls w w' = map (\<lambda>n. (CallDeleteRecord domainName n, None)) ns
          | Inr n \<Rightarrow>
              r = Return (fst (DeleteRecord (Domains c) domainName n s)) \<and>
              remote w' = snd (DeleteRecord (Domains c) domainName n s) \<and>
              new_calls w w' =
                map (\<lambda>n. (CallDeleteRecord domainName n, None)) ns @
                [(CallDeleteRecord domainName n, fst (DeleteRecord (Domains c) domainName n s))]) \<and>
         remote w' = replay (Domains c) (map fst (new_calls w w')) (remote w)"
proof -
  from assms(3) have ne: "ids \<noteq> []" by auto
  then obtain i0 ids0 where "ids = i0 # ids0" by (cases ids) auto
  with RunRecordDelete_ids [of c domainName i0 ids0 w] assms(1,2)
  have loop: "RunRecordDelete_loop c domainName ids w = (r, w')" by simp
  from RunRecordDelete_log [OF assms(1) ne assms(2)]
  have replayed: "remote w' = replay (Domains c) (map fst (new_calls w w')) (remote w)"
    by simp
  have split: "ids = take k ids @ ids ! k # drop (Suc k) ids"
    using assms(3) by (simp add: id_take_nth_drop)
  from loop_prefix [OF assms(4,5), of "ids ! k # drop (Suc k) ids"] split
  obtain w1 where
    w1: "RunRecordDelete_loop c domainName ids w =
           RunRecordDelete_loop c domainName (ids ! k # drop (Suc k) ids) w1"
      "remote w1 = replay (Domains c) (map (CallDeleteRecord domainName) ns) (remote w)"
      "calls w1 = calls w @ map (\<lambda>n. (CallDeleteRecord domainName n, None)) ns"
    by auto
  have at_k: "case Atoi (ids ! k) of
      Inl ne \<Rightarrow>
        r = Return (Some (Errorf ''invalid record id %q'' [ids ! k])) \<and>
        remote w' = s \<and>
        new_calls w w' = map (\<lambda>n. (CallDeleteRecord domainName n, None)) ns
    | Inr n \<Rightarrow>
        r = Return (fst (DeleteRecord (Domains c) domainName n s)) \<and>
        remote w' = snd (DeleteRecord (Domains c) domainName n s) \<and>
        new_calls w w' =
          map (\<lambda>n. (CallDeleteRecord domainName n, None)) ns @
          [(CallDeleteRecord domainName n, fst (DeleteRecord (Domains c) domainName n s))]"
  proof (cases "Atoi (ids ! k)")
    case (Inl ne)
    from loop w1(1) loop_Inl [OF Inl, of c domainName "drop (Suc k) ids" w1]
    have "r = Return (Some (Errorf ''invalid record id %q'' [ids ! k]))" and "w' = w1"
      by simp_all
    with Inl w1(2,3) assms(6) new_calls_append [OF w1(3)] show ?thesis by simp
  next
    case (Inr n)
    with assms(7) obtain e where e: "fst (DeleteRecord (Domains c) domainName n s) = Some e"
      by auto
    obtain err w2 where step: "ds_DeleteRecord c domainName n w1 = (err, w2)"
      by (cases "ds_DeleteRecord c domainName n w1")
    note w2 = ds_DeleteRecord_frame [OF step]
    from ds_DeleteRecord_result [OF step] w1(2) assms(6) e have err: "err = Some e" by simp
    from loop w1(1) loop_Some [OF Inr step [unfolded err], of "drop (Suc k) ids"]
    have "r = Return (Some e)" and "w' = w2" by simp_all
    moreover have "calls w2 =
        calls w @ (map (\<lambda>n. (CallDeleteRecord domainName n, None)) ns @
          [(CallDeleteRecord domainName n, Some e)])"
      using w2 w1(3) err by simp
    note new_calls_append [OF this]
    ultimately show ?thesis using Inr e w2 w1(2) assms(6) by simp
  qed
  from at_k replayed show ?thesis by (intro conjI)
qed

theorem RunRecordDelete_no_rollback_witness:
  "map Atoi (take 2 [''1'', ''2'', ''x'', ''3'']) = map Inr [1, 2] \<and>
   all_succeed store_DomainsService ''example.com'' [1, 2] [1, 2, 3] \<and>
   Atoi ([''1'', ''2'', ''x'', ''3''] ! 2) = Inl ErrSyntax \<and>
   replay store_DomainsService (map (CallDeleteRecord ''example.com'') [1, 2]) [1, 2, 3] = [3] \<and>
   fst (RunRecordDelete (store_config [''example.com'', ''1'', ''2'', ''x'', ''3''])
     (world0 [1, 2, 3])) = Return (Some (Errorf ''invalid record id %q'' [''x''])) \<and>
   remote (snd (RunRecordDelete (store_config [''example.com'', ''1'', ''2'', ''x'', ''3''])
     (world0 [1, 2, 3]))) =
     replay store_DomainsService (map (CallDeleteRecord ''example.com'') [1, 2]) [1, 2, 3] \<and>
   remote (snd (RunRecordDelete (store_config [''example.com'', ''1'', ''2'', ''x'', ''3''])
     (world0 [1, 2, 3]))) \<noteq> remote (world0 [1, 2, 3 :: int])"
proof -
  let ?c = "store_config [''example.com'', ''1'', ''2'', ''x'', ''3'']"
  let ?w = "world0 [1, 2, 3 :: int]"
  have args: "Args ?c = ''example.com'' # [''1'', ''2'', ''x'', ''3'']"
    by (simp add: Args_store_config)
  have k: "(2::nat) < length [''1'', ''2'', ''x'', ''3'']" by simp
  have parsed: "map Atoi (take 2 [''1'', ''2'', ''x'', ''3'']) = map Inr [1, 2]"
    by code_simp
  have ok: "all_succeed store_DomainsService ''example.com'' [1, 2] [1, 2, 3]"
    by code_simp
  have ok': "all_succeed (Domains ?c) ''example.com'' [1, 2] (remote ?w)"
    using ok by (simp add: Domains_store_config remote_world0)
  have bad: "Atoi ([''1'', ''2'', ''x'', ''3''] ! 2) = Inl ErrSyntax"
    by code_simp
  then have fails: "(\<exists>ne. Atoi ([''1'', ''2'', ''x'', ''3''] ! 2) = Inl ne) \<or>
      (\<exists>n e. Atoi ([''1'', ''2'', ''x'', ''3''] ! 2) = Inr n \<and>
        fst (DeleteRecord (Domains ?c) ''example.com'' n
          (replay (Domains ?c) (map (CallDeleteRecord ''example.com'') [1, 2]) (remote ?w))) =
          Some e)"
    by blast
  have left: "replay store_DomainsService (map (CallDeleteRecord ''example.com'') [1, 2])
      [1, 2, 3] = [3]"
    by code_simp
  obtain r w' where run: "RunRecordDelete ?c ?w = (r, w')"
    by (cases "RunRecordDelete ?c ?w")
  note inst = RunRecordDelete_no_rollback [OF args run k parsed ok' refl fails]
  from inst bad have r: "r = Return (Some (Errorf ''invalid record id %q'' [''x'']))"
    and st: "remote w' =
      replay (Domains ?c) (map (CallDeleteRecord ''example.com'') [1, 2]) (remote ?w)"
    by simp_all
  from st have st': "remote w' =
      replay store_DomainsService (map (CallDeleteRecord ''example.com'') [1, 2]) [1, 2, 3]"
    by (simp only: Domains_store_config remote_world0)
  from st' left have diff: "remote w' \<noteq> remote ?w"
    by (simp add: remote_world0)
  from parsed ok bad left r st' diff show ?thesis
    unfolding run fst_conv snd_conv by (intro conjI)
qed

subsection \<open>Errors of the service\<close>

lemma propagates_single:
  "err = None \<or> r = Return err \<Longrightarrow> propagates [(cl, err)] r"
  by (cases err) (auto simp: propagates_def)

lemma one_call_propagates:
  assumes "calls w' = calls w \<or>
     (\<exists>cl err. calls w' = calls w @ [(cl, err)] \<and> (err = None \<or> r = Return err))"
  shows "calls w' = calls w @ new_calls w w' \<and> propagates (new_calls w w') r"
proof -
  from assms show ?thesis
  proof
    assume "calls w' = calls w"
    then show ?thesis by (simp add: new_calls_def propagates_def)
  next
    assume "\<exists>cl err. calls w' = calls w @ [(cl, err)] \<and> (err = None \<or> r = Return err)"
    then obtain cl err where c: "calls w' = calls w @ [(cl, err)]"
      and e: "err = None \<or> r = Return err" by blast
    from new_calls_append [OF c] c propagates_single [OF e] show ?thesis by simp
  qed
qed

lemma RunDomainCreate_calls:
  "RunDomainCreate c w = (r, w') \<Longrightarrow>
     calls w' = calls w \<or>
     (\<exists>cl err. calls w' = calls w @ [(cl, err)] \<and> (err = None \<or> r = Return err))"
  by (auto simp: RunDomainCreate_def ds_Create_def c_Display_def Let_def
      split: if_splits prod.splits option.splits)

lemma RunDomainList_calls:
  "RunDomainList c w = (r, w') \<Longrightarrow>
     calls w' = calls w \<or>
     (\<exists>cl err. calls w' = calls w @ [(cl, err)] \<and> (err = None \<or> r = Return err))"
  by (auto simp: RunDomainList_def ds_List_def c_Display_def Let_def
      split: if_splits prod.splits option.splits)

lemma RunDomainGet_calls:
  "RunDomainGet c w = (r, w') \<Longrightarrow>
     calls w' = calls w \<or>
     (\<exists>cl err. calls w' = calls w @ [(cl, err)] \<and> (err = None \<or> r = Return err))"
  by (auto simp: RunDomainGet_def ds_Get_def c_Display_def Let_def
      split: if_splits prod.splits option.splits)

lemma RunDomainDelete_calls:
  "RunDomainDelete c w = (r, w') \<Longrightarrow>
     calls w' = calls w \<or>
     (\<exists>cl err. calls w' = calls w @ [(cl, err)] \<and> (err = None \<or> r = Return err))"
  by (auto simp: RunDomainDelete_def ds_Delete_def Let_def
      split: if_splits prod.splits option.splits)

lemma RunRecordList_calls:
  "RunRecordList c w = (r, w') \<Longrightarrow>
     calls w' = calls w \<or>
     (\<exists>cl err. calls w' = calls w @ [(cl, err)] \<and> (err = None \<or> r = Return err))"
  by (auto simp: RunRecordList_def ds_Records_def c_Display_def Let_def
      split: if_splits prod.splits option.splits)

lemma RunRecordCreate_calls:
  "RunRecordCreate c w = (r, w') \<Longrightarrow>
     calls w' = calls w \<or>
     (\<exists>cl err. calls w' = calls w @ [(cl, err)] \<and> (err = None \<or> r = Return err))"
  by (auto simp: RunRecordCreate_def ds_CreateRecord_def c_Display_def Let_def
      split: if_splits prod.splits option.splits)

lemma RunRecordUpdate_calls:
  "RunRecordUpdate c w = (r, w') \<Longrightarrow>
     calls w' = calls w \<or>
     (\<exists>cl err. calls w' = calls w @ [(cl, err)] \<and> (err = None \<or> r = Return err))"
  by (auto simp: RunRecordUpdate_def ds_EditRecord_def c_Display_def Let_def
      split: if_splits prod.splits option.splits)

lemma RunRecordDelete_propagates:
  assumes "RunRecordDelete c w = (r, w')"
  shows "calls w' = calls w @ new_calls w w' \<and> propagates (new_calls w w') r"
proof (cases "Args c")
  case Nil
  with assms have "w' = w" by (simp add: RunRecordDelete_def)
  then show ?thesis by (simp add: new_calls_refl propagates_def)
next
  case (Cons d ids)
  show ?thesis
  proof (cases "ids = []")
    case True
    with assms Cons RunRecordDelete_no_ids [of c d w] have "w' = w" by simp
    then show ?thesis by (simp add: new_calls_refl propagates_def)
  next
    case False
    from RunRecordDelete_log [OF Cons False assms]
    have log: "delete_log d ids (new_calls w w') r"
      and app: "calls w' = calls w @ new_calls w w'" by simp_all
    have "propagates (new_calls w w') r"
      unfolding propagates_def
    proof
      fix j assume "j \<in> {..<length (new_calls w w')}"
      then have j: "j < length (new_calls w w')" by simp
      show "case snd (new_calls w w' ! j) of None \<Rightarrow> True
            | Some e \<Rightarrow> r = Return (Some e) \<and> Suc j = length (new_calls w w')"
        using delete_log_error [OF log j] by (cases "snd (new_calls w w' ! j)") simp_all
    qed
    with app show ?thesis by simp
  qed
qed

lemma propagatesD:
  "propagates tr r \<Longrightarrow> j < length tr \<Longrightarrow> snd (tr ! j) = Some e \<Longrightarrow>
     r = Return (Some e) \<and> Suc j = length tr"
  by (auto simp: propagates_def split: option.splits)

lemma run_get_missing:
  "RunDomainGet (store_config [''example.com'']) (world0 [1]) =
     (Return (Some (Opaque 404)),
      \<lparr>remote = [1], out = [], calls = [(CallGet ''example.com'', Some (Opaque 404))],
       displayed = []\<rparr>)"
  by code_simp

text \<open>
  C7.  Whichever handler runs, an operation of the service that returned an error is the
  last invocation the handler logs, so it is neither repeated nor followed by another
  operation, and the handler returns that very error.
\<close>

theorem service_errors_propagate:
  assumes "H \<in> {RunDomainCreate, RunDomainList, RunDomainGet, RunDomainDelete,
                  RunRecordList, RunRecordCreate, RunRecordDelete, RunRecordUpdate}"
    and "H c w = (r, w')"
    and "tr = new_calls w w'"
  shows "calls w' = calls w @ tr \<and>
         (\<forall>j<length tr. \<forall>e. snd (tr ! j) = Some e \<longrightarrow>
                               r = Return (Some e) \<and> Suc j = length tr)"
proof -
  have "calls w' = calls w @ new_calls w w' \<and> propagates (new_calls w w') r"
    using assms(1,2)
      one_call_propagates [OF RunDomainCreate_calls, of c w r w']
      one_call_propagates [OF RunDomainList_calls, of c w r w']
      one_call_propagates [OF RunDomainGet_calls, of c w r w']
      one_call_propagates [OF RunDomainDelete_calls, of c w r w']
      one_call_propagates [OF RunRecordList_calls, of c w r w']
      one_call_propagates [OF RunRecordCreate_calls, of c w r w']
      one_call_propagates [OF RunRecordUpdate_calls, of c w r w']
      RunRecordDelete_propagates [of c w r w']
    by blast
  with assms(3) propagatesD [of tr r] show ?thesis by blast
qed

theorem service_errors_propagate_witness:
  "fst (RunDomainGet (store_config [''example.com'']) (world0 [1])) = Return (Some (Opaque 404)) \<and>
   calls (snd (RunDomainGet (store_config [''example.com'']) (world0 [1]))) =
     calls (world0 [1::int]) @
     new_calls (world0 [1]) (snd (RunDomainGet (store_config [''example.com'']) (world0 [1]))) \<and>
   new_calls (world0 [1]) (snd (RunDomainGet (store_config [''example.com'']) (world0 [1]))) =
     [(CallGet ''example.com'', Some (Opaque 404))]"
proof -
  have mem: "RunDomainGet \<in> {RunDomainCreate, RunDomainList, RunDomainGet, RunDomainDelete,
      RunRecordList, RunRecordCreate, RunRecordDelete, RunRecordUpdate}"
    by simp
  note inst = service_errors_propagate [OF mem run_get_missing refl]
  note app = inst [THEN conjunct1]
  have "calls (snd (RunDomainGet (store_config [''example.com'']) (world0 [1]))) =
      calls (world0 [1::int]) @
      new_calls (world0 [1]) (snd (RunDomainGet (store_config [''example.com'']) (world0 [1])))"
    unfolding run_get_missing snd_conv by (rule app)
  moreover have "fst (RunDomainGet (store_config [''example.com'']) (world0 [1])) =
      Return (Some (Opaque 404))"
    by (simp add: run_get_missing)
  moreover have "new_calls (world0 [1])
      (snd (RunDomainGet (store_config [''example.com'']) (world0 [1]))) =
      [(CallGet ''example.com'', Some (Opaque 404))]"
    by (simp add: run_get_missing new_calls_def calls_world0)
  ultimately show ?thesis by (intro conjI)
qed

subsection \<open>Listing domains\<close>

lemma run_list_broken_display:
  "RunDomainList
     (config [] (flags [] []) (mocks_DomainsService (list_mock two_domains)) display_broken)
     (world0 []) =
     (Return (Some (Opaque 2)),
      \<lparr>remote = [CallList], out = [], calls = [(CallList, None)],
       displayed = [domain two_domains]\<rparr>)"
  by code_simp

lemma list_mock_returns: "mock_slice (on_List (list_mock ds)) () = (ds, None)"
  by (simp add: list_mock_def mock_slice_def ret_Error_def)

text \<open>
  C4 as stated fails: the mocked \<^verbatim>\<open>List\<close> returns two domains and no error, the
  displayer is handed the two domains and reports an error, and \<^verbatim>\<open>RunDomainList\<close>
  returns that error.
\<close>

theorem RunDomainList_returns_display_error:
  "mock_slice (on_List (list_mock two_domains)) () = (two_domains, None) \<and>
   length two_domains = 2 \<and>
   fst (RunDomainList
     (config [] (flags [] []) (mocks_DomainsService (list_mock two_domains)) display_broken)
     (world0 [])) = Return (Some (Opaque 2))"
proof -
  have "length two_domains = 2" by (simp add: two_domains_def)
  then show ?thesis by (simp add: list_mock_returns run_list_broken_display)
qed

text \<open>
  C4, amended.  When \<^verbatim>\<open>List\<close> (of the mock or of any other implementation of the
  service) returns a list of entities and no error, \<^verbatim>\<open>RunDomainList\<close> invokes it once,
  hands the displayer exactly that list, unchanged and in the same order, once, and
  returns what the displayer returns: no error when the displayer reports none.
\<close>

theorem RunDomainList_displays_list:
  assumes "fst (List (Domains c) (remote w)) = (ds, None)"
  shows "new_calls w (snd (RunDomainList c w)) = [(CallList, None)] \<and>
         displayed (snd (RunDomainList c w)) = displayed w @ [domain ds] \<and>
         fst (RunDomainList c w) = Return (fst (Display c (domain ds) (out w))) \<and>
         (fst (Display c (domain ds) (out w)) = None \<longrightarrow>
            fst (RunDomainList c w) = Return None)"
  using assms
  by (auto simp: RunDomainList_def ds_List_def c_Display_def new_calls_def
      split: prod.splits option.splits)

theorem RunDomainList_displays_list_witness:
  "fst (List (mocks_DomainsService (list_mock two_domains)) []) = (two_domains, None) \<and>
   new_calls (world0 [])
     (snd (RunDomainList
       (config [] (flags [] []) (mocks_DomainsService (list_mock two_domains)) display_ok)
       (world0 []))) = [(CallList, None)] \<and>
   displayed (snd (RunDomainList
       (config [] (flags [] []) (mocks_DomainsService (list_mock two_domains)) display_ok)
       (world0 []))) = [domain two_domains] \<and>
   fst (RunDomainList
       (config [] (flags [] []) (mocks_DomainsService (list_mock two_domains)) display_ok)
       (world0 [])) = Return None"
proof -
  have ret: "fst (List (mocks_DomainsService (list_mock two_domains)) []) = (two_domains, None)"
    by (simp add: mocks_DomainsService_def list_mock_returns)
  have pre: "fst (List
      (Domains (config [] (flags [] []) (mocks_DomainsService (list_mock two_domains)) display_ok))
      (remote (world0 []))) = (two_domains, None)"
    using ret by (simp add: config_def world0_def)
  note inst = RunDomainList_displays_list [OF pre]
  from inst ret show ?thesis
    by (simp add: config_def world0_def display_ok_def)
qed

subsection \<open>Creating records\<close>

lemma run_create_no_args:
  "RunRecordCreate (config [] (flags [] []) (mocks_DomainsService canned_mock) display_ok)
     (world0 []) =
     (Return (Some (MissingArgsErr ''domain'')),
      \<lparr>remote = [], out = [], calls = [], displayed = []\<rparr>)"
  by code_simp

lemma run_create_no_type:
  "RunRecordCreate
     (config [''example.com''] (flags [(''record-name'', ''www'')] [(''record-port'', 80)])
        (mocks_DomainsService canned_mock) display_ok)
     (world0 []) =
     (Return (Some (ErrorString ''record request is missing type'')),
      \<lparr>remote = [], out = [], calls = [], displayed = []\<rparr>)"
  by code_simp

lemma flags_GetString:
  "GetString (flags strs ints) ns key = (case map_of strs key of Some v \<Rightarrow> v | None \<Rightarrow> [], None)"
  by (simp add: flags_def)

lemma flags_GetInt:
  "GetInt (flags strs ints) ns key = (case map_of ints key of Some v \<Rightarrow> v | None \<Rightarrow> 0, None)"
  by (simp add: flags_def)

text \<open>
  C3 as stated fails: an invocation without positional argument whose record type reads
  as the empty string is answered with the missing-arguments error, not with an
  invalid-input error.
\<close>

theorem RunRecordCreate_empty_type_no_argument:
  "GetString (flags [] []) ''domain'' ArgRecordType = ([], None) \<and>
   fst (RunRecordCreate
     (config [] (flags [] []) (mocks_DomainsService canned_mock) display_ok) (world0 [])) =
     Return (Some (MissingArgsErr ''domain'')) \<and>
   kind (MissingArgsErr ''domain'') \<noteq> InvalidInput"
  by (simp add: run_create_no_args flags_GetString)

text \<open>
  C3, amended.  When the record-type flag reads as the empty string,
  \<^verbatim>\<open>RunRecordCreate\<close> never invokes \<^verbatim>\<open>CreateRecord\<close>, and leaves everything outside
  untouched.  When moreover the invocation has exactly one positional argument and the
  other five flags are read without error, it returns the invalid-input error
  \<^verbatim>\<open>record request is missing type\<close>, whatever the values of those flags.
\<close>

theorem RunRecordCreate_empty_type:
  assumes "GetString (Doit c) (NS c) ArgRecordType = ([], None)"
  shows "new_calls w (snd (RunRecordCreate c w)) = [] \<and>
         snd (RunRecordCreate c w) = w \<and>
         (length (Args c) = 1 \<and>
          snd (GetString (Doit c) (NS c) ArgRecordName) = None \<and>
          snd (GetString (Doit c) (NS c) ArgRecordData) = None \<and>
          snd (GetInt (Doit c) (NS c) ArgRecordPriority) = None \<and>
          snd (GetInt (Doit c) (NS c) ArgRecordPort) = None \<and>
          snd (GetInt (Doit c) (NS c) ArgRecordWeight) = None \<longrightarrow>
            fst (RunRecordCreate c w) =
              Return (Some (ErrorString ''record request is missing type'')) \<and>
            kind (ErrorString ''record request is missing type'') = InvalidInput)"
proof -
  have same: "snd (RunRecordCreate c w) = w"
    using assms
    by (simp add: RunRecordCreate_def Let_def split: prod.splits option.splits)
  have res: "length (Args c) = 1 \<and>
      snd (GetString (Doit c) (NS c) ArgRecordName) = None \<and>
      snd (GetString (Doit c) (NS c) ArgRecordData) = None \<and>
      snd (GetInt (Doit c) (NS c) ArgRecordPriority) = None \<and>
      snd (GetInt (Doit c) (NS c) ArgRecordPort) = None \<and>
      snd (GetInt (Doit c) (NS c) ArgRecordWeight) = None \<longrightarrow>
        fst (RunRecordCreate c w) =
          Return (Some (ErrorString ''record request is missing type''))"
    using assms
    by (auto simp: RunRecordCreate_def Let_def split: prod.splits option.splits)
  from same res show ?thesis by (simp add: new_calls_refl)
qed

theorem RunRecordCreate_empty_type_witness:
  "GetString (flags [(''record-name'', ''www'')] [(''record-port'', 80)]) ''domain'' ArgRecordType =
     ([], None) \<and>
   snd (RunRecordCreate
     (config [''example.com''] (flags [(''record-name'', ''www'')] [(''record-port'', 80)])
        (mocks_DomainsService canned_mock) display_ok)
     (world0 [])) = world0 [] \<and>
   fst (RunRecordCreate
     (config [''example.com''] (flags [(''record-name'', ''www'')] [(''record-port'', 80)])
        (mocks_DomainsService canned_mock) display_ok)
     (world0 [])) = Return (Some (ErrorString ''record request is missing type''))"
proof -
  have ty: "GetString (flags [(''record-name'', ''www'')] [(''record-port'', 80)]) ''domain''
      ArgRecordType = ([], None)"
    by (simp add: flags_GetString ArgRecordType_def)
  have pre: "GetString
      (Doit (config [''example.com''] (flags [(''record-name'', ''www'')] [(''record-port'', 80)])
        (mocks_DomainsService canned_mock) display_ok))
      (NS (config [''example.com''] (flags [(''record-name'', ''www'')] [(''record-port'', 80)])
        (mocks_DomainsService canned_mock) display_ok))
      ArgRecordType = ([], None)"
    using ty by (simp add: config_def)
  note inst = RunRecordCreate_empty_type [OF pre, of "world0 []"]
  note same = inst [THEN conjunct2, THEN conjunct1]
  have res: "fst (RunRecordCreate
      (config [''example.com''] (flags [(''record-name'', ''www'')] [(''record-port'', 80)])
        (mocks_DomainsService canned_mock) display_ok)
      (world0 [])) = Return (Some (ErrorString ''record request is missing type''))"
    by (simp add: run_create_no_type)
  from ty same res show ?thesis by (intro conjI)
qed

lemma run_create_mx:
  "RunRecordCreate (config [''example.com''] mx_flags (mocks_DomainsService canned_mock) display_ok)
     (world0 []) =
     (Return None,
      \<lparr>remote = [CallCreateRecord ''example.com''
                  \<lparr>Type = ''MX'', Name = ''mail'', Data = ''mx.example.com'',
                   Priority = 10, Port = 0, Weight = 0\<rparr>],
       out = [domainRecord [canned_record]],
       calls = [(CallCreateRecord ''example.com''
                  \<lparr>Type = ''MX'', Name = ''mail'', Data = ''mx.example.com'',
                   Priority = 10, Port = 0, Weight = 0\<rparr>, None)],
       displayed = [domainRecord [canned_record]]\<rparr>)"
  by code_simp

lemma run_list_after_create_mx:
  "displayed (snd (RunRecordList
     (config [''example.com''] mx_flags (mocks_DomainsService canned_mock) display_ok)
     (snd (RunRecordCreate
       (config [''example.com''] mx_flags (mocks_DomainsService canned_mock) display_ok)
       (world0 []))))) =
     [domainRecord [canned_record], domainRecord []]"
  by code_simp

text \<open>
  C8 as stated fails.  The mock answers \<^verbatim>\<open>CreateRecord\<close> with the record it was
  configured with: asked to create an \<^verbatim>\<open>MX\<close> record, the handler displays the
  configured \<^verbatim>\<open>A\<close> record, and reading the records of the domain afterwards (the
  handlers have no other way of getting a record) yields the configured empty list.
\<close>

theorem mock_create_then_read_differs:
  "fst (GetString mx_flags ''domain'' ArgRecordType) = ''MX'' \<and>
   displayed (snd (RunRecordCreate
     (config [''example.com''] mx_flags (mocks_DomainsService canned_mock) display_ok)
     (world0 []))) = [domainRecord [canned_record]] \<and>
   rec_Type canned_record \<noteq> ''MX'' \<and>
   displayed (snd (RunRecordList
     (config [''example.com''] mx_flags (mocks_DomainsService canned_mock) display_ok)
     (snd (RunRecordCreate
       (config [''example.com''] mx_flags (mocks_DomainsService canned_mock) display_ok)
       (world0 []))))) =
     [domainRecord [canned_record], domainRecord []]"
proof -
  have "fst (GetString mx_flags ''domain'' ArgRecordType) = ''MX''"
    by (simp add: mx_flags_def flags_GetString ArgRecordType_def)
  moreover have "rec_Type canned_record \<noteq> ''MX''"
    by (simp add: canned_record_def)
  moreover have "displayed (snd (RunRecordCreate
      (config [''example.com''] mx_flags (mocks_DomainsService canned_mock) display_ok)
      (world0 []))) = [domainRecord [canned_record]]"
    by (simp add: run_create_mx)
  ultimately show ?thesis using run_list_after_create_mx by (intro conjI)
qed

text \<open>
  C8, amended.  Given one positional argument, six readable flags and a record type that
  is not empty, \<^verbatim>\<open>RunRecordCreate\<close> invokes \<^verbatim>\<open>CreateRecord\<close> exactly once, with
  the domain name and a request whose type, name, data, priority, port and weight are
  the values supplied; when the service answers with a record and no error, the handler
  displays exactly that record and returns what the displayer returns.  Which fields
  the answer carries is up to the service: a mock answers as it was configured.
\<close>

theorem RunRecordCreate_sends_flags:
  assumes "Args c = [name]"
    and "GetString (Doit c) (NS c) ArgRecordType = (rType, None)"
    and "GetString (Doit c) (NS c) ArgRecordName = (rName, None)"
    and "GetString (Doit c) (NS c) ArgRecordData = (rData, None)"
    and "GetInt (Doit c) (NS c) ArgRecordPriority = (rPriority, None)"
    and "GetInt (Doit c) (NS c) ArgRecordPort = (rPort, None)"
    and "GetInt (Doit c) (NS c) ArgRecordWeight = (rWeight, None)"
    and "rType \<noteq> []"
    and "req = \<lparr>Type = rType, Name = rName, Data = rData,
                 Priority = rPriority, Port = rPort, Weight = rWeight\<rparr>"
    and "fst (CreateRecord (Domains c) name req (remote w)) = (answer, err)"
  shows "new_calls w (snd (RunRecordCreate c w)) = [(CallCreateRecord name req, err)] \<and>
         (\<forall>r. answer = Some r \<and> err = None \<longrightarrow>
            displayed (snd (RunRecordCreate c w)) = displayed w @ [domainRecord [r]] \<and>
            fst (RunRecordCreate c w) = Return (fst (Display c (domainRecord [r]) (out w))))"
  using assms
  by (auto simp: RunRecordCreate_def ds_CreateRecord_def c_Display_def new_calls_def Let_def
      split: prod.splits option.splits)

theorem RunRecordCreate_sends_flags_witness:
  "new_calls (world0 [])
     (snd (RunRecordCreate
       (config [''example.com''] mx_flags (mocks_DomainsService canned_mock) display_ok)
       (world0 []))) =
     [(CallCreateRecord ''example.com''
         \<lparr>Type = ''MX'', Name = ''mail'', Data = ''mx.example.com'',
          Priority = 10, Port = 0, Weight = 0\<rparr>, None)] \<and>
   fst (CreateRecord (mocks_DomainsService canned_mock) ''example.com''
         \<lparr>Type = ''MX'', Name = ''mail'', Data = ''mx.example.com'',
          Priority = 10, Port = 0, Weight = 0\<rparr> []) = (Some canned_record, None)"
proof -
  let ?c = "config [''example.com''] mx_flags (mocks_DomainsService canned_mock) display_ok"
  let ?req = "\<lparr>Type = ''MX'', Name = ''mail'', Data = ''mx.example.com'',
               Priority = 10, Port = 0, Weight = 0\<rparr>"
  have a: "Args ?c = [''example.com'']" by (simp add: config_def)
  have t: "GetString (Doit ?c) (NS ?c) ArgRecordType = (''MX'', None)"
    by (simp add: config_def mx_flags_def flags_GetString ArgRecordType_def)
  have n: "GetString (Doit ?c) (NS ?c) ArgRecordName = (''mail'', None)"
    by (simp add: config_def mx_flags_def flags_GetString ArgRecordName_def)
  have d: "GetString (Doit ?c) (NS ?c) ArgRecordData = (''mx.example.com'', None)"
    by (simp add: config_def mx_flags_def flags_GetString ArgRecordData_def)
  have p: "GetInt (Doit ?c) (NS ?c) ArgRecordPriority = (10, None)"
    by (simp add: config_def mx_flags_def flags_GetInt ArgRecordPriority_def)
  have po: "GetInt (Doit ?c) (NS ?c) ArgRecordPort = (0, None)"
    by (simp add: config_def mx_flags_def flags_GetInt ArgRecordPort_def)
  have we: "GetInt (Doit ?c) (NS ?c) ArgRecordWeight = (0, None)"
    by (simp add: config_def mx_flags_def flags_GetInt ArgRecordWeight_def)
  have ne: "''MX'' \<noteq> []" by simp
  have ans: "fst (CreateRecord (mocks_DomainsService canned_mock) ''example.com'' ?req []) =
      (Some canned_record, None)"
    by (simp add: mocks_DomainsService_def canned_mock_def quiet_mock_def mock_ptr_def
        ret_Error_def)
  have ans': "fst (CreateRecord (Domains ?c) ''example.com'' ?req (remote (world0 []))) =
      (Some canned_record, None)"
    using ans by (simp add: config_def world0_def)
  note inst = RunRecordCreate_sends_flags [OF a t n d p po we ne refl ans']
  note sent = inst [THEN conjunct1]
  from sent ans show ?thesis by (intro conjI)
qed

subsection \<open>Empty domain names\<close>

text \<open>
  The handlers that get or delete a domain or list its records refuse an empty domain
  name before the service is reached.
\<close>

lemma empty_domain_name_refused:
  "Args c = [[]] \<Longrightarrow>
     refused InvalidInput (RunDomainGet c w) w \<and>
     refused InvalidInput (RunDomainDelete c w) w \<and>
     refused InvalidInput (RunRecordList c w) w"
  by (simp add: RunDomainGet_def RunDomainDelete_def RunRecordList_def refused_def
      new_calls_refl)

lemma run_domain_create_empty_name:
  "RunDomainCreate
     (config [[]] (flags [(''ip-address'', ''127.0.0.1'')] []) (mocks_DomainsService echo_mock)
        display_ok)
     (world0 []) =
     (Return None,
      \<lparr>remote = [CallCreate \<lparr>dcr_Name = [], dcr_IPAddress = ''127.0.0.1''\<rparr>],
       out = [domain [\<lparr>dom_Name = [], dom_IP = ''127.0.0.1''\<rparr>]],
       calls = [(CallCreate \<lparr>dcr_Name = [], dcr_IPAddress = ''127.0.0.1''\<rparr>, None)],
       displayed = [domain [\<lparr>dom_Name = [], dom_IP = ''127.0.0.1''\<rparr>]]\<rparr>)"
  by code_simp

text \<open>
  C5 does not hold of \<^verbatim>\<open>RunDomainCreate\<close>, which lacks the test its siblings make:
  given the empty string as domain name and a readable address flag, it invokes
  \<^verbatim>\<open>Create\<close> with a request whose name is empty, so it does not refuse the invocation.
\<close>

theorem RunDomainCreate_accepts_empty_name:
  assumes "Args c = [[]]"
    and "GetString (Doit c) (NS c) ''ip-address'' = (ip, None)"
  shows "map fst (new_calls w (snd (RunDomainCreate c w))) =
           [CallCreate \<lparr>dcr_Name = [], dcr_IPAddress = ip\<rparr>] \<and>
         \<not> refused InvalidInput (RunDomainCreate c w) w"
proof -
  have sent: "map fst (new_calls w (snd (RunDomainCreate c w))) =
      [CallCreate \<lparr>dcr_Name = [], dcr_IPAddress = ip\<rparr>]"
    using assms
    by (auto simp: RunDomainCreate_def ds_Create_def c_Display_def new_calls_def Let_def
        split: prod.splits option.splits)
  then have "new_calls w (snd (RunDomainCreate c w)) \<noteq> []" by auto
  with sent show ?thesis by (simp add: refused_def)
qed

theorem RunDomainCreate_accepts_empty_name_witness:
  "map fst (new_calls (world0 [])
     (snd (RunDomainCreate
       (config [[]] (flags [(''ip-address'', ''127.0.0.1'')] []) (mocks_DomainsService echo_mock)
          display_ok)
       (world0 [])))) =
     [CallCreate \<lparr>dcr_Name = [], dcr_IPAddress = ''127.0.0.1''\<rparr>] \<and>
   fst (RunDomainCreate
       (config [[]] (flags [(''ip-address'', ''127.0.0.1'')] []) (mocks_DomainsService echo_mock)
          display_ok)
       (world0 [])) = Return None"
proof -
  let ?c = "config [[]] (flags [(''ip-address'', ''127.0.0.1'')] [])
      (mocks_DomainsService echo_mock) display_ok"
  have a: "Args ?c = [[]]" by (simp add: config_def)
  have ip: "GetString (Doit ?c) (NS ?c) ''ip-address'' = (''127.0.0.1'', None)"
    by (simp add: config_def flags_GetString)
  note inst = RunDomainCreate_accepts_empty_name [OF a ip, of "world0 []"]
  note sent = inst [THEN conjunct1]
  have "fst (RunDomainCreate ?c (world0 [])) = Return None"
    by (simp add: run_domain_create_empty_name)
  with sent show ?thesis by (intro conjI)
qed

end
